theory Spec2Isabelle
  imports Complex_Main
begin

section \<open>JavaScript numbers and strings\<close>

text \<open>
  The content script \<^verbatim>\<open>src/content/instagram.ts\<close> computes with JavaScript numbers.
  Angles are integer valued and are modelled as \<^typ>\<open>int\<close>; lengths, volumes and times are
  modelled as \<^typ>\<open>real\<close> (rounding of IEEE doubles is not modelled). Where the source tests
  \<^verbatim>\<open>Number.isFinite\<close>, the three non-finite doubles are values of their own.
\<close>

datatype jsnum = Finite real | NaN | Infinity | NegInfinity

fun isFinite :: "jsnum \<Rightarrow> bool" where
  "isFinite (Finite x) = True"
| "isFinite NaN = False"
| "isFinite Infinity = False"
| "isFinite NegInfinity = False"

text \<open>\<^verbatim>\<open>a % b\<close> on integers: the remainder takes the sign of the dividend.\<close>

definition js_rem :: "int \<Rightarrow> int \<Rightarrow> int" where
  "js_rem a b = sgn a * (\<bar>a\<bar> mod \<bar>b\<bar>)"

text \<open>\<^verbatim>\<open>x % y\<close> on finite doubles, \<open>y \<noteq> 0\<close>: \<open>x - y * trunc (x / y)\<close>.\<close>

definition js_trunc :: "real \<Rightarrow> int" where
  "js_trunc z = (if 0 \<le> z then \<lfloor>z\<rfloor> else \<lceil>z\<rceil>)"

definition js_fmod :: "real \<Rightarrow> real \<Rightarrow> real" where
  "js_fmod x y = x - y * of_int (js_trunc (x / y))"

text \<open>
  \<^verbatim>\<open>Number.prototype.toString\<close> on an integer valued number, in decimal. Numbers are reals
  here, so the digits are those of the exact value. That is what JavaScript prints for a
  whole number below \<open>2^53\<close>: every such number is a double, and the exponent form starts
  only at \<open>10^21\<close>. Above \<open>2^53\<close> a double is a rounded value and the digits printed are
  those of the rounded value, which this function does not describe.
\<close>

definition digit_char :: "nat \<Rightarrow> char" where
  "digit_char d = ''0123456789'' ! d"

function nat_toString :: "nat \<Rightarrow> string" where
  "nat_toString n =
     (if n < 10 then [digit_char n] else nat_toString (n div 10) @ [digit_char (n mod 10)])"
  by pat_completeness auto
termination
  by (relation "measure id") auto

declare nat_toString.simps [simp del]

definition int_toString :: "int \<Rightarrow> string" where
  "int_toString i = (if i < 0 then CHR ''-'' # nat_toString (nat (- i)) else nat_toString (nat i))"

text \<open>\<^verbatim>\<open>s.padStart(n, c)\<close> for a one-character pad string.\<close>

definition padStart :: "nat \<Rightarrow> char \<Rightarrow> string \<Rightarrow> string" where
  "padStart n c s = replicate (n - length s) c @ s"

text \<open>\<^verbatim>\<open>s.startsWith(p)\<close>.\<close>

definition startsWith :: "string \<Rightarrow> string \<Rightarrow> bool" where
  "startsWith s p = (take (length p) s = p)"

section \<open>The control bar's time readout\<close>

text \<open>
  \<^verbatim>\<open>
  const formatTime = (seconds: number) => {
    if (!Number.isFinite(seconds)) return "0:00";
    const m = Math.floor(seconds / 60);
    const s = Math.floor(seconds % 60);
    return `${m}:${s.toString().padStart(2, "0")}`;
  };
  \<close>
\<close>

fun formatTime :: "jsnum \<Rightarrow> string" where
  "formatTime (Finite seconds) =
     (let m = \<lfloor>seconds / 60\<rfloor>;
          s = \<lfloor>js_fmod seconds 60\<rfloor>
      in int_toString m @ '':'' @ padStart 2 (CHR ''0'') (int_toString s))"
| "formatTime NaN = ''0:00''"
| "formatTime Infinity = ''0:00''"
| "formatTime NegInfinity = ''0:00''"

text \<open>\<^verbatim>\<open>video.duration || 0\<close>: \<open>NaN\<close> and \<open>0\<close> are falsy.\<close>

fun or_zero :: "jsnum \<Rightarrow> jsnum" where
  "or_zero NaN = Finite 0"
| "or_zero (Finite x) = Finite x"
| "or_zero Infinity = Infinity"
| "or_zero NegInfinity = NegInfinity"

text \<open>
  The fill percentage of \<^verbatim>\<open>updateTime\<close>:
  \<^verbatim>\<open>
  let percent = 0;
  if (duration > 0 && Number.isFinite(duration)) percent = (current / duration) * 100;
  \<close>
  where \<^verbatim>\<open>duration\<close> is already \<^verbatim>\<open>video.duration || 0\<close>.
\<close>

fun progress_percent :: "real \<Rightarrow> jsnum \<Rightarrow> real" where
  "progress_percent current (Finite d) = (if d > 0 then (current / d) * 100 else 0)"
| "progress_percent current NaN = 0"
| "progress_percent current Infinity = 0"
| "progress_percent current NegInfinity = 0"

text \<open>The text of the time display: \<^verbatim>\<open>`${formatTime(current)} / ${formatTime(duration)}`\<close>.\<close>

definition time_text :: "real \<Rightarrow> jsnum \<Rightarrow> string" where
  "time_text current duration = formatTime (Finite current) @ '' / '' @ formatTime duration"

section \<open>The page: a document tree and a store of elements\<close>

text \<open>
  Elements are identified by a number (object identity). The document is a tree of element
  identities with ordered children; the properties of every element, attached or not, live
  in a store indexed by identity. The \<^verbatim>\<open>WeakMap\<close>s and the \<^verbatim>\<open>WeakSet\<close> of the controller
  are maps and a set keyed by the identity of the video element.
\<close>

datatype tree = Node (nid: nat) (kids: "tree list")

text \<open>
  An inline style value. The empty string is \<open>Unset\<close>; the template strings of the source are
  kept structured: \<^verbatim>\<open>`${h}px`\<close> is \<open>Px h\<close>, \<^verbatim>\<open>`${p}%`\<close> is \<open>Percent p\<close>,
  \<^verbatim>\<open>`rotate(${d}deg) ${flip}`\<close> is \<open>Rotate d flipped\<close> and
  \<^verbatim>\<open>`rotate(${d}deg) scale(${s}) ${flip}`\<close> is \<open>RotateScale d s flipped\<close>, where \<open>flipped\<close>
  says whether \<^verbatim>\<open>scaleX(-1)\<close> is appended.
\<close>

datatype css = Unset | Text string | Px real | Percent real
  | Rotate int bool | RotateScale int jsnum bool

text \<open>The SVG markup assigned to \<^verbatim>\<open>innerHTML\<close>, by the picture it draws.\<close>

datatype icon = NoIcon | PlayIcon | PauseIcon | VolumeIcon | MutedIcon | FullscreenIcon
  | RotateGlyph

record element =
  tagName :: string
  attributes :: "string \<Rightarrow> string option"
  classList :: "string list"
  style :: "string \<Rightarrow> css"
  textContent :: string
  innerHTML :: icon
  clientWidth :: real
  clientHeight :: real
  computedPosition :: string
  videoWidth :: real
  videoHeight :: real
  volume :: real
  muted :: bool
  controls :: bool
  paused :: bool
  currentTime :: real
  duration :: jsnum

record page =
  processedVideos :: "nat set"
  rotationStates :: "nat \<rightharpoonup> int"
  flipStates :: "nat \<rightharpoonup> bool"
  customControls :: "nat \<rightharpoonup> nat"
  isEnabled :: bool
  intendedVolume :: "nat \<rightharpoonup> real"
  intendedMuted :: "nat \<rightharpoonup> bool"
  observer :: bool
  document :: tree
  elems :: "nat \<Rightarrow> element"
  nextId :: nat
  bodyId :: nat
  pathname :: string
  fullscreenElement :: "nat option"
  innerWidth :: real
  innerHeight :: real

subsection \<open>Walking the tree\<close>

fun preorder :: "tree \<Rightarrow> nat list" where
  "preorder (Node i ks) = i # concat (map preorder ks)"

text \<open>
  The chain \<^verbatim>\<open>e.parentElement, e.parentElement.parentElement, ...\<close> of an attached element, the
  nearest ancestor first, each ancestor with its subtree.
\<close>

fun ancestors_of :: "tree \<Rightarrow> nat \<Rightarrow> tree list option"
  and ancestors_in :: "tree list \<Rightarrow> nat \<Rightarrow> tree list option" where
  "ancestors_of (Node i ks) e =
     (if i = e then Some []
      else (case ancestors_in ks e of None \<Rightarrow> None | Some as \<Rightarrow> Some (as @ [Node i ks])))"
| "ancestors_in [] e = None"
| "ancestors_in (k # ks) e =
     (case ancestors_of k e of Some as \<Rightarrow> Some as | None \<Rightarrow> ancestors_in ks e)"

fun subtree :: "tree \<Rightarrow> nat \<Rightarrow> tree option"
  and subtree_in :: "tree list \<Rightarrow> nat \<Rightarrow> tree option" where
  "subtree (Node i ks) e = (if i = e then Some (Node i ks) else subtree_in ks e)"
| "subtree_in [] e = None"
| "subtree_in (k # ks) e = (case subtree k e of Some t \<Rightarrow> Some t | None \<Rightarrow> subtree_in ks e)"

text \<open>An element that is not in the document has no parent element in this model.\<close>

definition parentChain :: "page \<Rightarrow> nat \<Rightarrow> tree list" where
  "parentChain st e = (case ancestors_of (document st) e of None \<Rightarrow> [] | Some as \<Rightarrow> as)"

definition parentElement :: "page \<Rightarrow> nat \<Rightarrow> nat option" where
  "parentElement st e = (case parentChain st e of [] \<Rightarrow> None | p # _ \<Rightarrow> Some (nid p))"

fun remove_node :: "nat \<Rightarrow> tree \<Rightarrow> tree" where
  "remove_node e (Node i ks) = Node i (map (remove_node e) (filter (\<lambda>k. nid k \<noteq> e) ks))"

fun append_child :: "nat \<Rightarrow> tree \<Rightarrow> tree \<Rightarrow> tree" where
  "append_child p c (Node i ks) =
     (if i = p then Node i (ks @ [c]) else Node i (map (append_child p c) ks))"

text \<open>\<^verbatim>\<open>e.parentElement.removeChild(e)\<close>.\<close>

definition removeChild :: "nat \<Rightarrow> page \<Rightarrow> page" where
  "removeChild e st = st\<lparr>document := remove_node e (document st)\<rparr>"

text \<open>
  \<^verbatim>\<open>p.appendChild(c)\<close>, for a fragment \<open>c\<close> that was built detached or is moved from another
  place of the document: the node leaves its old parent and becomes the last child of \<open>p\<close>.
\<close>

definition appendChild :: "nat \<Rightarrow> tree \<Rightarrow> page \<Rightarrow> page" where
  "appendChild p c st =
     st\<lparr>document := append_child p c (remove_node (nid c) (document st))\<rparr>"

subsection \<open>Selectors\<close>

definition sel_class :: "string \<Rightarrow> element \<Rightarrow> bool" where
  "sel_class c e = (c \<in> set (classList e))"

text \<open>\<^verbatim>\<open>div[role="progressbar"]\<close>\<close>

definition sel_progressbar :: "element \<Rightarrow> bool" where
  "sel_progressbar e = (tagName e = ''DIV'' \<and> attributes e ''role'' = Some ''progressbar'')"

text \<open>\<^verbatim>\<open>button[aria-label="..."]\<close>\<close>

definition sel_button_label :: "string \<Rightarrow> element \<Rightarrow> bool" where
  "sel_button_label l e = (tagName e = ''BUTTON'' \<and> attributes e ''aria-label'' = Some l)"

text \<open>\<^verbatim>\<open>t.querySelector(sel)\<close>: the first proper descendant, in document order, that matches.\<close>

definition querySelector_in :: "page \<Rightarrow> tree \<Rightarrow> (element \<Rightarrow> bool) \<Rightarrow> nat option" where
  "querySelector_in st t sel =
     List.find (\<lambda>i. sel (elems st i)) (concat (map preorder (kids t)))"

definition querySelector :: "page \<Rightarrow> nat \<Rightarrow> (element \<Rightarrow> bool) \<Rightarrow> nat option" where
  "querySelector st e sel =
     (case subtree (document st) e of None \<Rightarrow> None | Some t \<Rightarrow> querySelector_in st t sel)"

text \<open>\<^verbatim>\<open>document.querySelectorAll("video")\<close>, a static list in document order.\<close>

definition querySelectorAll_video :: "page \<Rightarrow> nat list" where
  "querySelectorAll_video st =
     filter (\<lambda>i. tagName (elems st i) = ''VIDEO'') (preorder (document st))"

subsection \<open>Writing properties\<close>

definition update_elem :: "nat \<Rightarrow> (element \<Rightarrow> element) \<Rightarrow> page \<Rightarrow> page" where
  "update_elem e f st = st\<lparr>elems := (elems st)(e := f (elems st e))\<rparr>"

definition setStyle :: "nat \<Rightarrow> string \<Rightarrow> css \<Rightarrow> page \<Rightarrow> page" where
  "setStyle e p v = update_elem e (\<lambda>x. x\<lparr>style := (style x)(p := v)\<rparr>)"

definition getStyle :: "page \<Rightarrow> nat \<Rightarrow> string \<Rightarrow> css" where
  "getStyle st e p = style (elems st e) p"

definition classList_add :: "nat \<Rightarrow> string \<Rightarrow> page \<Rightarrow> page" where
  "classList_add e c =
     update_elem e (\<lambda>x. x\<lparr>classList := (if c \<in> set (classList x) then classList x
                                         else classList x @ [c])\<rparr>)"

definition classList_remove :: "nat \<Rightarrow> string \<Rightarrow> page \<Rightarrow> page" where
  "classList_remove e c = update_elem e (\<lambda>x. x\<lparr>classList := filter (\<lambda>d. d \<noteq> c) (classList x)\<rparr>)"

definition setAttribute :: "nat \<Rightarrow> string \<Rightarrow> string \<Rightarrow> page \<Rightarrow> page" where
  "setAttribute e a v = update_elem e (\<lambda>x. x\<lparr>attributes := (attributes x)(a := Some v)\<rparr>)"

text \<open>
  \<^verbatim>\<open>document.createElement(tag)\<close> followed by the assignment of \<^verbatim>\<open>className\<close>: a fresh
  element with no attribute, no inline style and no layout yet.
\<close>

definition new_element :: "string \<Rightarrow> string list \<Rightarrow> element" where
  "new_element tag cls =
     \<lparr>tagName = tag, attributes = (\<lambda>_. None), classList = cls, style = (\<lambda>_. Unset),
      textContent = [], innerHTML = NoIcon, clientWidth = 0, clientHeight = 0,
      computedPosition = ''static'', videoWidth = 0, videoHeight = 0, volume = 1,
      muted = False, controls = False, paused = True, currentTime = 0, duration = NaN\<rparr>"

definition createElement :: "nat \<Rightarrow> string \<Rightarrow> string list \<Rightarrow> page \<Rightarrow> page" where
  "createElement e tag cls st =
     st\<lparr>elems := (elems st)(e := new_element tag cls), nextId := Suc e\<rparr>"

section \<open>The controller\<close>

subsection \<open>Reading the per-video state\<close>

text \<open>\<^verbatim>\<open>this.rotationStates.get(video) || 0\<close> and \<^verbatim>\<open>this.flipStates.get(video) || false\<close>.\<close>

definition getRotation :: "page \<Rightarrow> nat \<Rightarrow> int" where
  "getRotation st video = (case rotationStates st video of None \<Rightarrow> 0 | Some r \<Rightarrow> r)"

definition getFlip :: "page \<Rightarrow> nat \<Rightarrow> bool" where
  "getFlip st video = (case flipStates st video of None \<Rightarrow> False | Some b \<Rightarrow> b)"

subsection \<open>Story classifier and container resolver\<close>

text \<open>
  \<^verbatim>\<open>isStoryVideo\<close>: the path test, then the loop
  \<^verbatim>\<open>while (parent && depth < 12) { ...; parent = parent.parentElement; depth++; }\<close>.
\<close>

fun story_loop :: "page \<Rightarrow> tree list \<Rightarrow> nat \<Rightarrow> bool" where
  "story_loop st [] depth = False"
| "story_loop st (parent # rest) depth =
     (if depth < 12 then
        (if querySelector_in st parent sel_progressbar \<noteq> None then True
         else if (querySelector_in st parent (sel_button_label ''Close'') \<noteq> None \<or>
                  querySelector_in st parent (sel_button_label ''Story'') \<noteq> None) \<and>
                 (attributes (elems st (nid parent)) ''role'' = Some ''dialog'' \<or>
                  tagName (elems st (nid parent)) = ''SECTION'')
         then True
         else story_loop st rest (Suc depth))
      else False)"

definition isStoryVideo :: "page \<Rightarrow> nat \<Rightarrow> bool" where
  "isStoryVideo st video =
     (if startsWith (pathname st) ''/stories/'' then True
      else story_loop st (parentChain st video) 0)"

text \<open>
  \<^verbatim>\<open>findVideoContainer\<close>: the first of at most 10 ancestors that is more than 200 pixels high
  and wide, else the immediate parent (\<open>None\<close> is \<^verbatim>\<open>null\<close>).
\<close>

fun container_loop :: "page \<Rightarrow> tree list \<Rightarrow> nat \<Rightarrow> nat option" where
  "container_loop st [] depth = None"
| "container_loop st (parent # rest) depth =
     (if depth < 10 then
        (if clientHeight (elems st (nid parent)) > 200 \<and> clientWidth (elems st (nid parent)) > 200
         then Some (nid parent)
         else container_loop st rest (Suc depth))
      else None)"

definition findVideoContainer :: "page \<Rightarrow> nat \<Rightarrow> nat option" where
  "findVideoContainer st video =
     (case container_loop st (parentChain st video) 0 of
        Some c \<Rightarrow> Some c
      | None \<Rightarrow> parentElement st video)"

subsection \<open>Transform engine\<close>

text \<open>
  Division and \<^verbatim>\<open>Math.max\<close> as JavaScript has them: a division by zero is \<open>Infinity\<close>,
  \<open>-Infinity\<close> or \<open>NaN\<close>, and \<open>NaN\<close> is contagious.
\<close>

definition js_div :: "real \<Rightarrow> real \<Rightarrow> jsnum" where
  "js_div x y =
     (if y \<noteq> 0 then Finite (x / y)
      else if x > 0 then Infinity else if x < 0 then NegInfinity else NaN)"

fun js_max :: "jsnum \<Rightarrow> jsnum \<Rightarrow> jsnum" where
  "js_max NaN b = NaN"
| "js_max a NaN = NaN"
| "js_max Infinity b = Infinity"
| "js_max a Infinity = Infinity"
| "js_max NegInfinity b = b"
| "js_max a NegInfinity = a"
| "js_max (Finite a) (Finite b) = Finite (max a b)"

text \<open>\<^verbatim>\<open>a || b\<close> on finite numbers: \<open>0\<close> is falsy.\<close>

definition or_else :: "real \<Rightarrow> real \<Rightarrow> real" where
  "or_else a b = (if a \<noteq> 0 then a else b)"

text \<open>
  \<^verbatim>\<open>applyRotation(video, degrees)\<close>. In the 90/270 branch the scale is a number in the
  fullscreen case and the constant \<open>0.55\<close> inline; \<open>RotateScale\<close> carries it as a \<^typ>\<open>jsnum\<close>.
\<close>

definition applyRotation :: "nat \<Rightarrow> int \<Rightarrow> page \<Rightarrow> page" where
  "applyRotation video degrees st =
     (case findVideoContainer st video of
        None \<Rightarrow> st
      | Some container \<Rightarrow>
          let isFlipped = getFlip st video in
          if degrees = 0 \<and> \<not> isFlipped then
            (let st1 = setStyle video ''transform'' Unset st;
                 st2 = setStyle video ''width'' Unset st1;
                 st3 = setStyle video ''height'' Unset st2;
                 st4 = setStyle video ''marginTop'' Unset st3;
                 st5 = setStyle video ''marginLeft'' Unset st4
             in setStyle container ''height'' Unset st5)
          else
            (let isFullscreen = (fullscreenElement st \<noteq> None);
                 vWidth = or_else (videoWidth (elems st video)) (clientWidth (elems st video));
                 vHeight = or_else (videoHeight (elems st video)) (clientHeight (elems st video));
                 targetWidth = (if isFullscreen then innerWidth st
                                else clientWidth (elems st container));
                 targetHeight = (if isFullscreen then innerHeight st
                                 else or_else (clientHeight (elems st container)) targetWidth);
                 st1 = setStyle video ''transition''
                         (Text ''transform 0.3s ease, margin 0.3s ease'') st;
                 st2 = setStyle video ''transformOrigin'' (Text ''center center'') st1
             in if degrees = 180 \<or> degrees = 0 then
                  (let st3 = setStyle video ''transform'' (Rotate degrees isFlipped) st2
                   in if \<not> isFullscreen then setStyle container ''height'' Unset st3 else st3)
                else if isFullscreen then
                  (let scaleCoverX = js_div targetWidth vHeight;
                       scaleCoverY = js_div targetHeight vWidth;
                       scale = js_max scaleCoverX scaleCoverY
                   in setStyle video ''transform'' (RotateScale degrees scale isFlipped) st2)
                else
                  (let scale = 0.55;
                       visualHeight = vWidth * scale;
                       st3 = setStyle container ''height'' (Px visualHeight) st2
                   in setStyle video ''transform''
                        (RotateScale degrees (Finite scale) isFlipped) st3)))"

subsection \<open>Rotation menu\<close>

text \<open>
  The three entries of \<^verbatim>\<open>menuItems\<close>: two carry \<^verbatim>\<open>degrees\<close>, the third carries
  \<^verbatim>\<open>isFlip\<close>.
\<close>

datatype menu_item = RotateLeft | RotateRight | FlipHorizontally

fun degrees_of :: "menu_item \<Rightarrow> int option" where
  "degrees_of RotateLeft = Some (- 90)"
| "degrees_of RotateRight = Some 90"
| "degrees_of FlipHorizontally = None"

fun isFlip_in :: "menu_item \<Rightarrow> bool" where
  "isFlip_in FlipHorizontally = True"
| "isFlip_in RotateLeft = False"
| "isFlip_in RotateRight = False"

text \<open>
  What the closures of one call of \<^verbatim>\<open>addRotationButton\<close> capture: the container found at
  that time, the button, the menu and its items.
\<close>

record rotation_ui =
  ui_container :: nat
  ui_rotateBtn :: nat
  ui_rotateMenu :: nat
  ui_menuItems :: "nat list"

definition menu_fragment :: "page \<Rightarrow> rotation_ui \<Rightarrow> tree" where
  "menu_fragment st ui =
     (case subtree (document st) (ui_rotateMenu ui) of
        Some t \<Rightarrow> t
      | None \<Rightarrow> Node (ui_rotateMenu ui) (map (\<lambda>i. Node i []) (ui_menuItems ui)))"

text \<open>
  The block that closes the menu, written three times in the source:
  \<^verbatim>\<open>
  rotateMenu.classList.remove("active");
  if (rotateMenu.parentElement === document.body) {
    container.appendChild(rotateMenu);
    rotateMenu.style.removeProperty("position"); ... "top"; "right"; "left"
  }
  \<close>
\<close>

definition closeMenu :: "rotation_ui \<Rightarrow> page \<Rightarrow> page" where
  "closeMenu ui st =
     (let st1 = classList_remove (ui_rotateMenu ui) ''active'' st
      in if parentElement st1 (ui_rotateMenu ui) = Some (bodyId st1) then
           (let st2 = appendChild (ui_container ui) (menu_fragment st1 ui) st1;
                st3 = setStyle (ui_rotateMenu ui) ''position'' Unset st2;
                st4 = setStyle (ui_rotateMenu ui) ''top'' Unset st3;
                st5 = setStyle (ui_rotateMenu ui) ''right'' Unset st4
            in setStyle (ui_rotateMenu ui) ''left'' Unset st5)
         else st1)"

text \<open>\<^verbatim>\<open>handleItemAction\<close> of the menu item \<open>item\<close> of the video \<open>video\<close>.\<close>

definition handleItemAction :: "rotation_ui \<Rightarrow> nat \<Rightarrow> menu_item \<Rightarrow> page \<Rightarrow> page" where
  "handleItemAction ui video item st =
     (let st1 =
        (if isFlip_in item then
           (let currentFlip = getFlip st video
            in st\<lparr>flipStates := (flipStates st)(video \<mapsto> \<not> currentFlip)\<rparr>)
         else
           (let currentRotation = getRotation st video;
                newRotation = js_rem (currentRotation +
                                (case degrees_of item of None \<Rightarrow> 0 | Some d \<Rightarrow> d)) 360;
                newRotation' = (if newRotation < 0 then newRotation + 360 else newRotation)
            in st\<lparr>rotationStates := (rotationStates st)(video \<mapsto> newRotation')\<rparr>));
          st2 = applyRotation video (getRotation st1 video) st1
      in closeMenu ui st2)"

text \<open>
  \<^verbatim>\<open>toggleMenu\<close>; \<open>btnBottom\<close> and \<open>btnRight\<close> are read from
  \<^verbatim>\<open>rotateBtn.getBoundingClientRect()\<close>. The \<^verbatim>\<open>important\<close> priority is not modelled.
\<close>

definition toggleMenu :: "rotation_ui \<Rightarrow> real \<Rightarrow> real \<Rightarrow> page \<Rightarrow> page" where
  "toggleMenu ui btnBottom btnRight st =
     (let isActive = (''active'' \<in> set (classList (elems st (ui_rotateMenu ui))))
      in if isActive then closeMenu ui st
         else
           (let st1 = classList_add (ui_rotateMenu ui) ''active'' st;
                st2 = appendChild (bodyId st1) (menu_fragment st1 ui) st1;
                topPosition = btnBottom + 5;
                rightPosition = innerWidth st2 - btnRight;
                st3 = setStyle (ui_rotateMenu ui) ''position'' (Text ''fixed'') st2;
                st4 = setStyle (ui_rotateMenu ui) ''top'' (Px topPosition) st3;
                st5 = setStyle (ui_rotateMenu ui) ''right'' (Px rightPosition) st4
            in setStyle (ui_rotateMenu ui) ''left'' (Text ''auto'') st5))"

subsection \<open>Gesture handling\<close>



datatype control = RotateBtn | MenuItem menu_item | PlayBtn | VolumeBtn | FsBtn

datatype event_type = Click | MouseDown | MouseUp | TouchStart | TouchEnd


subsection \<open>Control bar\<close>

text \<open>The elements one call of \<^verbatim>\<open>addCustomControls\<close> creates, in creation order.\<close>

record bar_ui =
  ui_bar :: nat
  ui_playBtn :: nat
  ui_timeDisplay :: nat
  ui_progressContainer :: nat
  ui_progressTrack :: nat
  ui_progressFill :: nat
  ui_progressHandle :: nat
  ui_volumeGroup :: nat
  ui_volumeBtn :: nat
  ui_volumeSliderContainer :: nat
  ui_volumeTrack :: nat
  ui_volumeFill :: nat
  ui_fsBtn :: nat

definition bar_ui_at :: "nat \<Rightarrow> bar_ui" where
  "bar_ui_at n =
     \<lparr>ui_bar = n, ui_playBtn = n + 1, ui_timeDisplay = n + 2, ui_progressContainer = n + 3,
      ui_progressTrack = n + 4, ui_progressFill = n + 5, ui_progressHandle = n + 6,
      ui_volumeGroup = n + 7, ui_volumeBtn = n + 8, ui_volumeSliderContainer = n + 9,
      ui_volumeTrack = n + 10, ui_volumeFill = n + 11, ui_fsBtn = n + 12\<rparr>"

definition bar_fragment :: "bar_ui \<Rightarrow> tree" where
  "bar_fragment ui =
     Node (ui_bar ui)
       [Node (ui_playBtn ui) [],
        Node (ui_timeDisplay ui) [],
        Node (ui_progressContainer ui)
          [Node (ui_progressTrack ui) [Node (ui_progressFill ui) [Node (ui_progressHandle ui) []]]],
        Node (ui_volumeGroup ui)
          [Node (ui_volumeBtn ui) [],
           Node (ui_volumeSliderContainer ui) [Node (ui_volumeTrack ui) [Node (ui_volumeFill ui) []]]],
        Node (ui_fsBtn ui) []]"

text \<open>\<^verbatim>\<open>updateTime\<close>: the time text, the fill width and the play icon.\<close>

definition updateTime :: "bar_ui \<Rightarrow> nat \<Rightarrow> page \<Rightarrow> page" where
  "updateTime ui video st =
     (let current = currentTime (elems st video);
          dur = or_zero (duration (elems st video));
          st1 = update_elem (ui_timeDisplay ui) (\<lambda>x. x\<lparr>textContent := time_text current dur\<rparr>) st;
          percent = progress_percent current dur;
          st2 = setStyle (ui_progressFill ui) ''width'' (Percent percent) st1
      in if paused (elems st2 video) then
           classList_add (ui_bar ui) ''paused''
             (update_elem (ui_playBtn ui) (\<lambda>x. x\<lparr>innerHTML := PlayIcon\<rparr>) st2)
         else
           classList_remove (ui_bar ui) ''paused''
             (update_elem (ui_playBtn ui) (\<lambda>x. x\<lparr>innerHTML := PauseIcon\<rparr>) st2))"

text \<open>\<^verbatim>\<open>updateVolumeUI\<close>\<close>

definition updateVolumeUI :: "bar_ui \<Rightarrow> nat \<Rightarrow> page \<Rightarrow> page" where
  "updateVolumeUI ui video st =
     (let vol = volume (elems st video);
          isMuted = (muted (elems st video) \<or> vol = 0);
          st1 = setStyle (ui_volumeFill ui) ''width''
                  (Percent (if isMuted then 0 else vol * 100)) st
      in update_elem (ui_volumeBtn ui)
           (\<lambda>x. x\<lparr>innerHTML := (if isMuted then MutedIcon else VolumeIcon)\<rparr>) st1)"

text \<open>
  \<^verbatim>\<open>enforceVolumeState\<close>, the listener of \<^verbatim>\<open>play\<close> and \<^verbatim>\<open>playing\<close>.
\<close>

definition enforceVolumeState :: "nat \<Rightarrow> page \<Rightarrow> page" where
  "enforceVolumeState video st =
     (case (intendedVolume st video, intendedMuted st video) of
        (Some intentVol, Some intentMute) \<Rightarrow>
          if \<bar>volume (elems st video) - intentVol\<bar> > 0.01 \<or> muted (elems st video) \<noteq> intentMute
          then update_elem video (\<lambda>x. x\<lparr>muted := intentMute\<rparr>)
                 (update_elem video (\<lambda>x. x\<lparr>volume := intentVol\<rparr>) st)
          else st
      | _ \<Rightarrow> st)"

text \<open>The click listener of the mute button.\<close>

definition volumeBtn_click :: "nat \<Rightarrow> page \<Rightarrow> page" where
  "volumeBtn_click video st =
     (let newMuted = (\<not> muted (elems st video));
          st1 = st\<lparr>intendedMuted := (intendedMuted st)(video \<mapsto> newMuted)\<rparr>;
          st2 = st1\<lparr>intendedVolume := (intendedVolume st1)(video \<mapsto> volume (elems st1 video))\<rparr>
      in update_elem video (\<lambda>x. x\<lparr>muted := newMuted\<rparr>) st2)"

text \<open>
  The click listener of the volume track. After the guard and the clamp, its four assignments
  in program order:
  \<^verbatim>\<open>
  this.intendedVolume.set(video, pos);
  this.intendedMuted.set(video, false);
  video.volume = pos;
  video.muted = false;
  \<close>
\<close>

definition volumeTrack_assignments :: "nat \<Rightarrow> real \<Rightarrow> (page \<Rightarrow> page) list" where
  "volumeTrack_assignments video pos =
     [\<lambda>st. st\<lparr>intendedVolume := (intendedVolume st)(video \<mapsto> pos)\<rparr>,
      \<lambda>st. st\<lparr>intendedMuted := (intendedMuted st)(video \<mapsto> False)\<rparr>,
      update_elem video (\<lambda>x. x\<lparr>volume := pos\<rparr>),
      update_elem video (\<lambda>x. x\<lparr>muted := False\<rparr>)]"

definition run_assignments :: "(page \<Rightarrow> page) list \<Rightarrow> page \<Rightarrow> page" where
  "run_assignments fs st = foldl (\<lambda>s f. f s) st fs"

definition volumeTrack_pos :: "real \<Rightarrow> real \<Rightarrow> real \<Rightarrow> real" where
  "volumeTrack_pos clientX rectLeft rectWidth =
     max 0 (min 1 ((clientX - rectLeft) / rectWidth))"

definition volumeTrack_click :: "nat \<Rightarrow> real \<Rightarrow> real \<Rightarrow> real \<Rightarrow> page \<Rightarrow> page" where
  "volumeTrack_click video clientX rectLeft rectWidth st =
     (if rectWidth = 0 then st
      else run_assignments
             (volumeTrack_assignments video (volumeTrack_pos clientX rectLeft rectWidth)) st)"

text \<open>
  \<^verbatim>\<open>handleFsChange\<close>, the listener of \<^verbatim>\<open>fullscreenchange\<close>, after its animation frame.
\<close>

definition handleFsChange :: "nat \<Rightarrow> page \<Rightarrow> page" where
  "handleFsChange video st =
     (let degree = getRotation st video
      in if degree \<noteq> 0 then applyRotation video degree st else st)"

text \<open>
  \<^verbatim>\<open>addCustomControls\<close>. The bar is built detached and attached by the last statement,
  \<^verbatim>\<open>container.appendChild(bar)\<close>; listeners are not state.
\<close>

definition addCustomControls :: "nat \<Rightarrow> page \<Rightarrow> page" where
  "addCustomControls video st =
     (case findVideoContainer st video of
        None \<Rightarrow> st
      | Some container \<Rightarrow>
          let ui = bar_ui_at (nextId st);
              s1 = setStyle (ui_bar ui) ''display'' (Text ''flex'')
                     (createElement (ui_bar ui) ''DIV'' [''insta-control-bar''] st);
              s2 = setAttribute (ui_playBtn ui) ''title'' ''Play/Pause''
                     (update_elem (ui_playBtn ui) (\<lambda>x. x\<lparr>innerHTML := PlayIcon\<rparr>)
                        (createElement (ui_playBtn ui) ''BUTTON'' [''insta-control-btn''] s1));
              s3 = update_elem (ui_timeDisplay ui) (\<lambda>x. x\<lparr>textContent := ''0:00 / 0:00''\<rparr>)
                     (createElement (ui_timeDisplay ui) ''DIV'' [''insta-control-time''] s2);
              s4 = createElement (ui_progressContainer ui) ''DIV''
                     [''insta-control-progress-container''] s3;
              s5 = createElement (ui_progressTrack ui) ''DIV'' [''insta-control-progress-track''] s4;
              s6 = createElement (ui_progressFill ui) ''DIV'' [''insta-control-progress-fill''] s5;
              s7 = createElement (ui_progressHandle ui) ''DIV''
                     [''insta-control-progress-handle''] s6;
              s8 = createElement (ui_volumeGroup ui) ''DIV'' [''insta-control-volume-group''] s7;
              s9 = setAttribute (ui_volumeBtn ui) ''title'' ''Mute/Unmute''
                     (update_elem (ui_volumeBtn ui) (\<lambda>x. x\<lparr>innerHTML := VolumeIcon\<rparr>)
                        (createElement (ui_volumeBtn ui) ''BUTTON'' [''insta-control-btn''] s8));
              s10 = createElement (ui_volumeSliderContainer ui) ''DIV''
                      [''insta-control-volume-slider-container''] s9;
              s11 = createElement (ui_volumeTrack ui) ''DIV'' [''insta-control-volume-track''] s10;
              s12 = createElement (ui_volumeFill ui) ''DIV'' [''insta-control-volume-fill''] s11;
              s13 = setAttribute (ui_fsBtn ui) ''title'' ''Fullscreen''
                      (update_elem (ui_fsBtn ui) (\<lambda>x. x\<lparr>innerHTML := FullscreenIcon\<rparr>)
                         (createElement (ui_fsBtn ui) ''BUTTON'' [''insta-control-btn''] s12));
              s14 = updateVolumeUI ui video s13;
              s15 = s14\<lparr>customControls := (customControls s14)(video \<mapsto> ui_bar ui)\<rparr>
          in appendChild container (bar_fragment ui) s15)"

text \<open>
  \<^verbatim>\<open>addRotationButton\<close>. The button, the menu and its three items are created, and the last
  two statements attach the button and the menu to the container.
\<close>

definition rotation_ui_at :: "nat \<Rightarrow> nat \<Rightarrow> rotation_ui" where
  "rotation_ui_at container n =
     \<lparr>ui_container = container, ui_rotateBtn = n, ui_rotateMenu = n + 1,
      ui_menuItems = [n + 2, n + 3, n + 4]\<rparr>"

definition addRotationButton :: "nat \<Rightarrow> page \<Rightarrow> page" where
  "addRotationButton video st =
     (case findVideoContainer st video of
        None \<Rightarrow> st
      | Some container \<Rightarrow>
          let ui = rotation_ui_at container (nextId st);
              s0 = (if computedPosition (elems st container) = ''static''
                    then setStyle container ''position'' (Text ''relative'') st else st);
              s1 = setAttribute (ui_rotateBtn ui) ''aria-hidden'' ''false''
                     (setAttribute (ui_rotateBtn ui) ''aria-label'' ''Rotation options''
                        (setAttribute (ui_rotateBtn ui) ''title'' ''Rotation options''
                           (update_elem (ui_rotateBtn ui) (\<lambda>x. x\<lparr>innerHTML := RotateGlyph\<rparr>)
                              (createElement (ui_rotateBtn ui) ''BUTTON''
                                 [''insta-control-rotate-btn''] s0))));
              s2 = setAttribute (ui_rotateMenu ui) ''aria-hidden'' ''false''
                     (createElement (ui_rotateMenu ui) ''DIV'' [''insta-control-rotate-menu''] s1);
              s3 = foldl (\<lambda>s i. setAttribute i ''aria-hidden'' ''false''
                                   (createElement i ''BUTTON'' [''insta-control-rotate-menu-item''] s))
                     s2 (ui_menuItems ui);
              s4 = appendChild container (Node (ui_rotateBtn ui) []) s3
          in appendChild container
               (Node (ui_rotateMenu ui) (map (\<lambda>i. Node i []) (ui_menuItems ui))) s4)"

subsection \<open>Enhancement, discovery and teardown\<close>

text \<open>
  \<^verbatim>\<open>enhanceVideo\<close>. \<^verbatim>\<open>suppressNativeClick\<close> only registers a listener and changes no state.
\<close>

definition enhanceVideo :: "nat \<Rightarrow> page \<Rightarrow> page" where
  "enhanceVideo video st =
     (if \<not> isEnabled st then st
      else if video \<in> processedVideos st then st
      else if isStoryVideo st video then st
      else
        (let s1 = st\<lparr>processedVideos := insert video (processedVideos st)\<rparr>;
             s2 = s1\<lparr>rotationStates := (rotationStates s1)(video \<mapsto> 0)\<rparr>;
             s3 = s2\<lparr>intendedVolume := (intendedVolume s2)(video \<mapsto> volume (elems s2 video))\<rparr>;
             s4 = s3\<lparr>intendedMuted := (intendedMuted s3)(video \<mapsto> muted (elems s3 video))\<rparr>;
             s5 = update_elem video (\<lambda>x. x\<lparr>controls := False\<rparr>) s4;
             s6 = addCustomControls video s5
         in addRotationButton video s6))"

text \<open>\<^verbatim>\<open>processExistingVideos\<close>\<close>

definition processExistingVideos :: "page \<Rightarrow> page" where
  "processExistingVideos st = foldl (\<lambda>s video. enhanceVideo video s) st (querySelectorAll_video st)"

text \<open>
  The callback of the \<^verbatim>\<open>MutationObserver\<close> for one added element that is in the document,
  and for a batch of them.
\<close>

definition videos_within :: "page \<Rightarrow> nat \<Rightarrow> nat list" where
  "videos_within st node =
     (case subtree (document st) node of
        None \<Rightarrow> []
      | Some t \<Rightarrow> filter (\<lambda>i. tagName (elems st i) = ''VIDEO'') (concat (map preorder (kids t))))"

definition onAddedNode :: "nat \<Rightarrow> page \<Rightarrow> page" where
  "onAddedNode node st =
     (let s1 = (if tagName (elems st node) = ''VIDEO'' then enhanceVideo node st else st)
      in foldl (\<lambda>s video. enhanceVideo video s) s1 (videos_within s1 node))"

definition onMutations :: "nat list \<Rightarrow> page \<Rightarrow> page" where
  "onMutations addedNodes st = foldl (\<lambda>s node. onAddedNode node s) st addedNodes"

definition observeVideoAdditions :: "page \<Rightarrow> page" where
  "observeVideoAdditions st = st\<lparr>observer := True\<rparr>"

text \<open>
  The body of the \<^verbatim>\<open>forEach\<close> of \<^verbatim>\<open>removeAllControls\<close>, in its three commented blocks:
  ``Remove custom control bar'', ``Remove rotation button'' with the reset of the container,
  and ``Reset video styles'' with the two last statements.
\<close>

definition removeBar :: "nat \<Rightarrow> page \<Rightarrow> page" where
  "removeBar video st =
     (let s1 = (case customControls st video of
                  None \<Rightarrow> st
                | Some bar \<Rightarrow> if parentElement st bar \<noteq> None then removeChild bar st else st)
      in s1\<lparr>customControls := (customControls s1)(video := None)\<rparr>)"

definition removeRotationUI :: "nat \<Rightarrow> page \<Rightarrow> page" where
  "removeRotationUI video st =
     (case findVideoContainer st video of
        None \<Rightarrow> st
      | Some container \<Rightarrow>
          let a = (case querySelector st container (sel_class ''insta-control-rotate-btn'') of
                     None \<Rightarrow> st
                   | Some rotateBtn \<Rightarrow> removeChild rotateBtn st);
              b = (case querySelector a container (sel_class ''insta-control-rotate-menu'') of
                     None \<Rightarrow> a
                   | Some rotateMenu \<Rightarrow> removeChild rotateMenu a);
              c = classList_remove container ''insta-control-enhanced'' b
          in setStyle container ''height'' Unset c)"

definition resetVideo :: "nat \<Rightarrow> page \<Rightarrow> page" where
  "resetVideo video st =
     (let s4 = setStyle video ''transform'' Unset st;
          s5 = setStyle video ''width'' Unset s4;
          s6 = setStyle video ''height'' Unset s5;
          s7 = setStyle video ''marginTop'' Unset s6;
          s8 = setStyle video ''marginLeft'' Unset s7;
          s9 = update_elem video (\<lambda>x. x\<lparr>controls := True\<rparr>) s8
      in s9\<lparr>processedVideos := processedVideos s9 - {video}\<rparr>)"

definition removeControls_of :: "nat \<Rightarrow> page \<Rightarrow> page" where
  "removeControls_of video st = resetVideo video (removeRotationUI video (removeBar video st))"

definition removeAllControls :: "page \<Rightarrow> page" where
  "removeAllControls st = foldl (\<lambda>s video. removeControls_of video s) st (querySelectorAll_video st)"

text \<open>
  The listener of \<^verbatim>\<open>browser.storage.onChanged\<close>, for a change of \<^verbatim>\<open>extensionEnabled\<close>
  to \<open>newValue\<close>. The root of the document tree is \<^verbatim>\<open>document.documentElement\<close>.
\<close>

definition onStorageChanged :: "bool \<Rightarrow> page \<Rightarrow> page" where
  "onStorageChanged newValue st =
     (if newValue = isEnabled st then st
      else
        (let s1 = st\<lparr>isEnabled := newValue\<rparr>
         in if isEnabled s1 then
              observeVideoAdditions
                (processExistingVideos
                   (classList_add (nid (document s1)) ''insta-control-active'' s1))
            else
              (let s2 = classList_remove (nid (document s1)) ''insta-control-active'' s1;
                   s3 = s2\<lparr>observer := False\<rparr>
               in removeAllControls s3)))"

text \<open>\<^verbatim>\<open>init\<close>, with the stored preference \<open>extensionEnabled\<close>.\<close>

definition init :: "bool \<Rightarrow> page \<Rightarrow> page" where
  "init extensionEnabled st =
     (let s1 = st\<lparr>isEnabled := extensionEnabled\<rparr>;
          s2 = (if isEnabled s1
                then classList_add (nid (document s1)) ''insta-control-active'' s1 else s1)
      in if \<not> isEnabled s2 then s2
         else observeVideoAdditions (processExistingVideos s2))"

section \<open>Reference definitions and example pages\<close>

text \<open>
  A sequence of menu actions on one video, and the signed increment the specification
  assigns to each action (a flip does not turn the picture).
\<close>

definition menu_actions :: "rotation_ui \<Rightarrow> nat \<Rightarrow> menu_item list \<Rightarrow> page \<Rightarrow> page" where
  "menu_actions ui video items st = foldl (\<lambda>s item. handleItemAction ui video item s) st items"

fun signed_increment :: "menu_item \<Rightarrow> int" where
  "signed_increment RotateLeft = - 90"
| "signed_increment RotateRight = 90"
| "signed_increment FlipHorizontally = 0"




text \<open>The story classifier in the words of the specification.\<close>

definition has_descendant :: "page \<Rightarrow> tree \<Rightarrow> (element \<Rightarrow> bool) \<Rightarrow> bool" where
  "has_descendant st t sel = (\<exists>i \<in> set (concat (map preorder (kids t))). sel (elems st i))"

definition story_marker :: "page \<Rightarrow> tree \<Rightarrow> bool" where
  "story_marker st p =
     (has_descendant st p sel_progressbar \<or>
      ((has_descendant st p (sel_button_label ''Close'') \<or>
        has_descendant st p (sel_button_label ''Story'')) \<and>
       (attributes (elems st (nid p)) ''role'' = Some ''dialog'' \<or>
        tagName (elems st (nid p)) = ''SECTION'')))"

definition story_by_spec :: "page \<Rightarrow> nat \<Rightarrow> bool" where
  "story_by_spec st video =
     (startsWith (pathname st) ''/stories/'' \<or>
      (\<exists>p \<in> set (take 12 (parentChain st video)). story_marker st p))"

text \<open>
  A page with one reel: \<^verbatim>\<open>html(0) > body(1) > div(2) > video(3)\<close>. The wrapper is 400 by 600
  pixels, the video is 1920 by 1080 natively and carries the inline style
  \<^verbatim>\<open>width: 100%\<close> of the host page. Nothing is enhanced yet.
\<close>

definition reel_page :: page where
  "reel_page =
     \<lparr>processedVideos = {}, rotationStates = Map.empty, flipStates = Map.empty,
      customControls = Map.empty, isEnabled = True, intendedVolume = Map.empty,
      intendedMuted = Map.empty, observer = False,
      document = Node 0 [Node 1 [Node 2 [Node 3 []]]],
      elems = (\<lambda>_. new_element ''DIV'' [])
        (0 := new_element ''HTML'' [],
         1 := new_element ''BODY'' [],
         2 := (new_element ''DIV'' [])\<lparr>clientWidth := 400, clientHeight := 600\<rparr>,
         3 := (new_element ''VIDEO'' [])\<lparr>clientWidth := 400, clientHeight := 225,
                 videoWidth := 1920, videoHeight := 1080, controls := True,
                 style := (\<lambda>_. Unset)(''width'' := Text ''100%'')\<rparr>),
      nextId = 4, bodyId = 1, pathname = ''/reel/abc/'', fullscreenElement = None,
      innerWidth = 1280, innerHeight = 720\<rparr>"


text \<open>
  The reel page before the metadata of the video is loaded: \<^verbatim>\<open>videoWidth\<close> and
  \<^verbatim>\<open>videoHeight\<close> read 0, the element is laid out at 400 by 225 pixels all the same. The
  second page has the wrapper in fullscreen.
\<close>

definition reel_unloaded :: page where
  "reel_unloaded = update_elem 3 (\<lambda>e. e\<lparr>videoWidth := 0, videoHeight := 0\<rparr>) reel_page"

definition fullscreen_unloaded :: page where
  "fullscreen_unloaded = reel_unloaded\<lparr>fullscreenElement := Some 2\<rparr>"

text \<open>
  A feed with two posts, \<^verbatim>\<open>html(0) > body(1) > [div(2) > video(3), div(4) > video(5)]\<close>, while
  the wrapper of the second post is in fullscreen.
\<close>

definition feed_page :: page where
  "feed_page =
     reel_page\<lparr>document := Node 0 [Node 1 [Node 2 [Node 3 []], Node 4 [Node 5 []]]],
       elems := (elems reel_page)
         (4 := (new_element ''DIV'' [])\<lparr>clientWidth := 400, clientHeight := 600\<rparr>,
          5 := (new_element ''VIDEO'' [])\<lparr>clientWidth := 400, clientHeight := 225,
                 videoWidth := 1280, videoHeight := 720, controls := True\<rparr>),
       nextId := 6, fullscreenElement := Some 4\<rparr>"

text \<open>
  An element is in fullscreen when the fullscreen element of the document is that element
  or one of its ancestors.
\<close>

definition in_fullscreen :: "page \<Rightarrow> nat \<Rightarrow> bool" where
  "in_fullscreen st e =
     (case fullscreenElement st of
        None \<Rightarrow> False
      | Some f \<Rightarrow> f \<in> set (e # map nid (parentChain st e)))"

text \<open>
  A story view outside the story path: \<^verbatim>\<open>html(0) > body(1) > section(2) > [div(4), div(5) > video(3)]\<close>
  where \<^verbatim>\<open>div(4)\<close> has the role \<^verbatim>\<open>progressbar\<close>.
\<close>

definition story_page :: page where
  "story_page =
     reel_page\<lparr>document := Node 0 [Node 1 [Node 2 [Node 4 [], Node 5 [Node 3 []]]]],
       elems := (elems reel_page)
         (2 := new_element ''SECTION'' [],
          4 := (new_element ''DIV'' [])\<lparr>attributes := (\<lambda>_. None)(''role'' := Some ''progressbar'')\<rparr>,
          5 := (new_element ''DIV'' [])\<lparr>clientWidth := 400, clientHeight := 600\<rparr>),
       nextId := 6, pathname := ''/''\<rparr>"

text \<open>
  The reel page after: start-up with the preference enabled, one click on
  ``Flip Horizontally'', the preference switched off, the preference switched on again.
  The menu closures are those of the first enhancement (wrapper 2, button 17).
\<close>

definition reel_flipped :: page where
  "reel_flipped =
     handleItemAction (rotation_ui_at 2 17) 3 FlipHorizontally (init True reel_page)"

definition reel_reenabled :: page where
  "reel_reenabled = onStorageChanged True (onStorageChanged False reel_flipped)"


text \<open>
  What the container resolver, the story classifier and the discovery of videos read of an
  element: its tag, its attributes and its client size.
\<close>

definition skeleton :: "element \<Rightarrow> string \<times> (string \<Rightarrow> string option) \<times> real \<times> real" where
  "skeleton x = (tagName x, attributes x, clientWidth x, clientHeight x)"

text \<open>The stations of the scenario of claim C2.\<close>

definition reel_started :: page where
  "reel_started = init True reel_page"

definition reel_disabled :: page where
  "reel_disabled = onStorageChanged False reel_flipped"

text \<open>
  A page that has the tree of the reel page, its path and, on the four elements of that
  tree, its tags, attributes and sizes.
\<close>

definition reel_like :: "page \<Rightarrow> bool" where
  "reel_like st =
     (document st = Node 0 [Node 1 [Node 2 [Node 3 []]]]
      \<and> pathname st = ''/reel/abc/''
      \<and> (\<forall>i<4. skeleton (elems st i) = skeleton (elems reel_page i)))"

text \<open>
  The state \<^verbatim>\<open>enhanceVideo\<close> has reached when it calls \<^verbatim>\<open>addCustomControls\<close>: the video is
  registered and its native controls are off.
\<close>

definition registered :: "nat \<Rightarrow> page \<Rightarrow> page" where
  "registered video st =
     update_elem video (\<lambda>x. x\<lparr>controls := False\<rparr>)
       (st\<lparr>processedVideos := insert video (processedVideos st),
            rotationStates := (rotationStates st)(video \<mapsto> 0),
            intendedVolume := (intendedVolume st)(video \<mapsto> volume (elems st video)),
            intendedMuted := (intendedMuted st)(video \<mapsto> muted (elems st video))\<rparr>)"

text \<open>The reel page with the marker class on the root, as \<^verbatim>\<open>init\<close> leaves it before discovery.\<close>

definition reel_active :: page where
  "reel_active = classList_add 0 ''insta-control-active'' (reel_page\<lparr>isEnabled := True\<rparr>)"

text \<open>The tree of the reel page, and the tree once the bar, the button and the menu are attached.\<close>

definition reel_tree :: tree where
  "reel_tree = Node 0 [Node 1 [Node 2 [Node 3 []]]]"

definition enhanced_tree :: tree where
  "enhanced_tree =
     Node 0 [Node 1 [Node 2
       [Node 3 [],
        Node 4 [Node 5 [], Node 6 [], Node 7 [Node 8 [Node 9 [Node 10 []]]],
                Node 11 [Node 12 [], Node 13 [Node 14 [Node 15 []]]], Node 16 []],
        Node 17 [],
        Node 18 [Node 19 [], Node 20 [], Node 21 []]]]]"

text \<open>
  The flipped reel page as the preference listener has it when it calls
  \<^verbatim>\<open>removeAllControls\<close>: disabled, the marker class removed, the observer disconnected.
\<close>

definition reel_halted :: page where
  "reel_halted =
     (classList_remove 0 ''insta-control-active'' (reel_flipped\<lparr>isEnabled := False\<rparr>))
       \<lparr>observer := False\<rparr>"

text \<open>
  A second course of events on the reel page: after start-up the rotation menu is opened
  (the button's box ends 40 pixels from the top and 390 from the left), and the preference
  is switched off while the menu is open.
\<close>

definition reel_menu_open :: page where
  "reel_menu_open = toggleMenu (rotation_ui_at 2 17) 40 390 reel_started"

definition reel_menu_halted :: page where
  "reel_menu_halted =
     (classList_remove 0 ''insta-control-active'' (reel_menu_open\<lparr>isEnabled := False\<rparr>))
       \<lparr>observer := False\<rparr>"

definition reel_menu_left :: page where
  "reel_menu_left = onStorageChanged False reel_menu_open"

section \<open>Basic facts\<close>

subsection \<open>What the primitive operations leave alone\<close>

lemma update_elem_frame [simp]:
  "processedVideos (update_elem e f st) = processedVideos st"
  "rotationStates (update_elem e f st) = rotationStates st"
  "flipStates (update_elem e f st) = flipStates st"
  "customControls (update_elem e f st) = customControls st"
  "isEnabled (update_elem e f st) = isEnabled st"
  "intendedVolume (update_elem e f st) = intendedVolume st"
  "intendedMuted (update_elem e f st) = intendedMuted st"
  "observer (update_elem e f st) = observer st"
  "document (update_elem e f st) = document st"
  "nextId (update_elem e f st) = nextId st"
  "bodyId (update_elem e f st) = bodyId st"
  "pathname (update_elem e f st) = pathname st"
  "fullscreenElement (update_elem e f st) = fullscreenElement st"
  "innerWidth (update_elem e f st) = innerWidth st"
  "innerHeight (update_elem e f st) = innerHeight st"
  "elems (update_elem e f st) = (elems st)(e := f (elems st e))"
  by (simp_all add: update_elem_def)

lemma createElement_frame [simp]:
  "processedVideos (createElement e tag cls st) = processedVideos st"
  "rotationStates (createElement e tag cls st) = rotationStates st"
  "flipStates (createElement e tag cls st) = flipStates st"
  "customControls (createElement e tag cls st) = customControls st"
  "isEnabled (createElement e tag cls st) = isEnabled st"
  "intendedVolume (createElement e tag cls st) = intendedVolume st"
  "intendedMuted (createElement e tag cls st) = intendedMuted st"
  "observer (createElement e tag cls st) = observer st"
  "document (createElement e tag cls st) = document st"
  "nextId (createElement e tag cls st) = Suc e"
  "bodyId (createElement e tag cls st) = bodyId st"
  "pathname (createElement e tag cls st) = pathname st"
  "fullscreenElement (createElement e tag cls st) = fullscreenElement st"
  "innerWidth (createElement e tag cls st) = innerWidth st"
  "innerHeight (createElement e tag cls st) = innerHeight st"
  "elems (createElement e tag cls st) = (elems st)(e := new_element tag cls)"
  by (simp_all add: createElement_def)

lemma appendChild_frame [simp]:
  "processedVideos (appendChild p c st) = processedVideos st"
  "rotationStates (appendChild p c st) = rotationStates st"
  "flipStates (appendChild p c st) = flipStates st"
  "customControls (appendChild p c st) = customControls st"
  "isEnabled (appendChild p c st) = isEnabled st"
  "intendedVolume (appendChild p c st) = intendedVolume st"
  "intendedMuted (appendChild p c st) = intendedMuted st"
  "observer (appendChild p c st) = observer st"
  "elems (appendChild p c st) = elems st"
  "nextId (appendChild p c st) = nextId st"
  "bodyId (appendChild p c st) = bodyId st"
  "pathname (appendChild p c st) = pathname st"
  "fullscreenElement (appendChild p c st) = fullscreenElement st"
  "innerWidth (appendChild p c st) = innerWidth st"
  "innerHeight (appendChild p c st) = innerHeight st"
  "document (appendChild p c st) = append_child p c (remove_node (nid c) (document st))"
  by (simp_all add: appendChild_def)

lemma removeChild_frame [simp]:
  "processedVideos (removeChild e st) = processedVideos st"
  "rotationStates (removeChild e st) = rotationStates st"
  "flipStates (removeChild e st) = flipStates st"
  "customControls (removeChild e st) = customControls st"
  "isEnabled (removeChild e st) = isEnabled st"
  "intendedVolume (removeChild e st) = intendedVolume st"
  "intendedMuted (removeChild e st) = intendedMuted st"
  "observer (removeChild e st) = observer st"
  "elems (removeChild e st) = elems st"
  "nextId (removeChild e st) = nextId st"
  "bodyId (removeChild e st) = bodyId st"
  "pathname (removeChild e st) = pathname st"
  "fullscreenElement (removeChild e st) = fullscreenElement st"
  "innerWidth (removeChild e st) = innerWidth st"
  "innerHeight (removeChild e st) = innerHeight st"
  "document (removeChild e st) = remove_node e (document st)"
  by (simp_all add: removeChild_def)

lemmas elem_ops = setStyle_def setAttribute_def classList_add_def classList_remove_def

lemma getStyle_setStyle [simp]:
  "getStyle (setStyle e p v st) e' p' = (if e' = e \<and> p' = p then v else getStyle st e' p')"
  by (simp add: getStyle_def setStyle_def)

lemma setStyle_frame [simp]:
  "fullscreenElement (setStyle e p v st) = fullscreenElement st"
  "document (setStyle e p v st) = document st"
  "flipStates (setStyle e p v st) = flipStates st"
  "rotationStates (setStyle e p v st) = rotationStates st"
  "clientHeight (elems (setStyle e p v st) i) = clientHeight (elems st i)"
  "clientWidth (elems (setStyle e p v st) i) = clientWidth (elems st i)"
  "videoWidth (elems (setStyle e p v st) i) = videoWidth (elems st i)"
  "videoHeight (elems (setStyle e p v st) i) = videoHeight (elems st i)"
  by (simp_all add: setStyle_def)

lemma getFlip_setStyle [simp]: "getFlip (setStyle e p v st) video = getFlip st video"
  by (simp add: getFlip_def)

lemma foldl_frame:
  assumes "\<And>s x. P (f s x) = P s"
  shows "P (foldl f s xs) = P s"
  by (induction xs arbitrary: s) (simp_all add: assms)

subsection \<open>What the controller's operations leave alone\<close>

lemma applyRotation_frame [simp]:
  "processedVideos (applyRotation video d st) = processedVideos st"
  "rotationStates (applyRotation video d st) = rotationStates st"
  "flipStates (applyRotation video d st) = flipStates st"
  "document (applyRotation video d st) = document st"
  "isEnabled (applyRotation video d st) = isEnabled st"
  by (simp_all add: applyRotation_def elem_ops Let_def split: option.splits)

lemma closeMenu_frame [simp]:
  "processedVideos (closeMenu ui st) = processedVideos st"
  "rotationStates (closeMenu ui st) = rotationStates st"
  "flipStates (closeMenu ui st) = flipStates st"
  "isEnabled (closeMenu ui st) = isEnabled st"
  by (simp_all add: closeMenu_def elem_ops Let_def)

lemma addCustomControls_frame [simp]:
  "processedVideos (addCustomControls video st) = processedVideos st"
  "rotationStates (addCustomControls video st) = rotationStates st"
  "flipStates (addCustomControls video st) = flipStates st"
  "isEnabled (addCustomControls video st) = isEnabled st"
  "intendedVolume (addCustomControls video st) = intendedVolume st"
  "intendedMuted (addCustomControls video st) = intendedMuted st"
  "pathname (addCustomControls video st) = pathname st"
  by (simp_all add: addCustomControls_def updateVolumeUI_def elem_ops Let_def split: option.splits)

lemma addRotationButton_frame [simp]:
  "processedVideos (addRotationButton video st) = processedVideos st"
  "rotationStates (addRotationButton video st) = rotationStates st"
  "flipStates (addRotationButton video st) = flipStates st"
  "isEnabled (addRotationButton video st) = isEnabled st"
  "intendedVolume (addRotationButton video st) = intendedVolume st"
  "intendedMuted (addRotationButton video st) = intendedMuted st"
  "pathname (addRotationButton video st) = pathname st"
  by (simp_all add: addRotationButton_def rotation_ui_at_def elem_ops Let_def split: option.splits)

lemma enhanceVideo_frame [simp]:
  "flipStates (enhanceVideo video st) = flipStates st"
  "isEnabled (enhanceVideo video st) = isEnabled st"
  "pathname (enhanceVideo video st) = pathname st"
  by (simp_all add: enhanceVideo_def Let_def)

text \<open>A video that qualifies is registered with angle 0 and the intent read from the element.\<close>

lemma enhanceVideo_registers:
  assumes "isEnabled st" "video \<notin> processedVideos st" "\<not> isStoryVideo st video"
  shows "video \<in> processedVideos (enhanceVideo video st)"
    and "rotationStates (enhanceVideo video st) video = Some 0"
    and "intendedVolume (enhanceVideo video st) video = Some (volume (elems st video))"
    and "intendedMuted (enhanceVideo video st) video = Some (muted (elems st video))"
  using assms by (simp_all add: enhanceVideo_def Let_def)

lemma removeControls_of_flip [simp]: "flipStates (removeControls_of video st) = flipStates st"
  by (simp add: removeControls_of_def removeBar_def removeRotationUI_def resetVideo_def
        elem_ops Let_def split: option.splits)

lemma removeAllControls_flip [simp]: "flipStates (removeAllControls st) = flipStates st"
  unfolding removeAllControls_def by (rule foldl_frame) simp

lemma processExistingVideos_flip [simp]: "flipStates (processExistingVideos st) = flipStates st"
  unfolding processExistingVideos_def by (rule foldl_frame) simp

text \<open>No path of the preference listener or of the start-up writes the flip map.\<close>

lemma onStorageChanged_flip: "flipStates (onStorageChanged b st) = flipStates st"
  by (simp add: onStorageChanged_def observeVideoAdditions_def elem_ops Let_def)

lemma init_flip: "flipStates (init b st) = flipStates st"
  by (simp add: init_def observeVideoAdditions_def elem_ops Let_def)

subsection \<open>The container resolver reads the tree and the client sizes only\<close>

lemma findVideoContainer_cong:
  assumes "document st' = document st"
    and "\<And>i. clientHeight (elems st' i) = clientHeight (elems st i)"
    and "\<And>i. clientWidth (elems st' i) = clientWidth (elems st i)"
  shows "findVideoContainer st' video = findVideoContainer st video"
proof -
  have loop: "container_loop st' chain d = container_loop st chain d" for chain d
    by (induction chain arbitrary: d) (simp_all add: assms)
  have pc: "parentChain st' video = parentChain st video"
    by (simp add: parentChain_def assms(1))
  have pe: "parentElement st' video = parentElement st video"
    by (simp add: parentElement_def pc)
  show ?thesis
    unfolding findVideoContainer_def pc pe loop ..
qed

lemma reel_chain:
  "parentChain reel_page 3 =
     [Node 2 [Node 3 []], Node 1 [Node 2 [Node 3 []]], Node 0 [Node 1 [Node 2 [Node 3 []]]]]"
  by (simp add: parentChain_def reel_page_def)

lemma reel_container: "findVideoContainer reel_page 3 = Some 2"
  by (simp add: findVideoContainer_def reel_chain) (simp add: reel_page_def new_element_def)


section \<open>Rotation and flip state (claims C1 and C9)\<close>

lemma js_rem_normalize:
  "(let r = js_rem x 360 in if r < 0 then r + 360 else r) = x mod 360"
proof (cases "0 \<le> x")
  case True
  then show ?thesis by (cases "x = 0") (auto simp: js_rem_def Let_def)
next
  case False
  then have neg: "x < 0" by simp
  have a: "\<bar>x\<bar> = - x" using neg by simp
  have m: "x mod 360 = (if (- x) mod 360 = 0 then 0 else 360 - (- x) mod 360)"
    using zmod_zminus1_eq_if [of "- x" 360] by simp
  have "0 \<le> (- x) mod 360" by simp
  then have p: "(- x) mod 360 = 0 \<or> 0 < (- x) mod 360" by linarith
  show ?thesis
    using neg p by (auto simp add: js_rem_def Let_def a m)
qed

lemma getRotation_handleItemAction:
  "getRotation (handleItemAction ui video item st) video =
     (if isFlip_in item then getRotation st video
      else (getRotation st video + the (degrees_of item)) mod 360)"
  using js_rem_normalize [of "getRotation st video + the (degrees_of item)"]
  by (cases item) (simp_all add: handleItemAction_def getRotation_def Let_def)

lemma getRotation_step:
  "0 \<le> getRotation st video \<and> getRotation st video < 360 \<Longrightarrow>
   getRotation (handleItemAction ui video item st) video =
     (getRotation st video + signed_increment item) mod 360"
  by (cases item) (simp_all add: getRotation_handleItemAction)

lemma getRotation_menu_actions:
  "0 \<le> getRotation st video \<and> getRotation st video < 360 \<Longrightarrow>
   getRotation (menu_actions ui video items st) video =
     (getRotation st video + sum_list (map signed_increment items)) mod 360"
proof (induction items arbitrary: st)
  case Nil
  then show ?case by (simp add: menu_actions_def)
next
  case (Cons item items)
  let ?s = "handleItemAction ui video item st"
  have r: "getRotation ?s video = (getRotation st video + signed_increment item) mod 360"
    using Cons.prems by (rule getRotation_step)
  then have "0 \<le> getRotation ?s video \<and> getRotation ?s video < 360" by simp
  from Cons.IH [OF this] have
    "getRotation (menu_actions ui video items ?s) video =
       (getRotation ?s video + sum_list (map signed_increment items)) mod 360" .
  then show ?case
    by (simp add: menu_actions_def r mod_add_left_eq add.assoc)
qed

lemma handleItemAction_stored:
  "rotationStates st video \<noteq> None \<Longrightarrow>
   rotationStates (handleItemAction ui video item st) video \<noteq> None"
  by (simp add: handleItemAction_def Let_def)

lemma menu_actions_stored:
  "rotationStates st video \<noteq> None \<Longrightarrow>
   rotationStates (menu_actions ui video items st) video \<noteq> None"
proof (induction items arbitrary: st)
  case Nil
  then show ?case by (simp add: menu_actions_def)
next
  case (Cons item items)
  have "rotationStates (handleItemAction ui video item st) video \<noteq> None"
    using Cons.prems by (rule handleItemAction_stored)
  from Cons.IH [OF this] show ?case by (simp add: menu_actions_def)
qed

text \<open>
  Claim C1. For a registered video whose stored angle is 0, after any sequence of menu
  actions the stored angle is the sum of the signed 90 degree increments modulo 360, a
  value in \<open>[0, 360)\<close>; three rotate-rights give 270 and a fourth gives 0.
\<close>

theorem rotation_sequence:
  assumes "rotationStates st video = Some 0"
  shows "rotationStates (menu_actions ui video items st) video =
           Some (sum_list (map signed_increment items) mod 360)
       \<and> 0 \<le> sum_list (map signed_increment items) mod 360
       \<and> sum_list (map signed_increment items) mod 360 < 360
       \<and> rotationStates (menu_actions ui video [RotateRight, RotateRight, RotateRight] st) video
           = Some 270
       \<and> rotationStates
           (menu_actions ui video [RotateRight, RotateRight, RotateRight, RotateRight] st) video
           = Some 0"
proof -
  have g0: "getRotation st video = 0" using assms by (simp add: getRotation_def)
  have gen: "rotationStates (menu_actions ui video xs st) video =
               Some (sum_list (map signed_increment xs) mod 360)" for xs
  proof -
    have "getRotation (menu_actions ui video xs st) video =
            (getRotation st video + sum_list (map signed_increment xs)) mod 360"
      by (rule getRotation_menu_actions) (simp add: g0)
    moreover have "rotationStates (menu_actions ui video xs st) video \<noteq> None"
      by (rule menu_actions_stored) (simp add: assms)
    ultimately show ?thesis using assms by (auto simp: getRotation_def)
  qed
  show ?thesis
    using gen [of items] gen [of "[RotateRight, RotateRight, RotateRight]"]
      gen [of "[RotateRight, RotateRight, RotateRight, RotateRight]"]
    by simp
qed

lemma reel_no_attributes: "attributes (elems reel_page i) a = None"
  by (simp add: reel_page_def new_element_def)

lemma reel_not_story: "\<not> isStoryVideo reel_page 3"
proof -
  have p: "\<not> startsWith (pathname reel_page) ''/stories/''"
    by (simp add: reel_page_def startsWith_def)
  have q: "querySelector_in reel_page t sel_progressbar = None"
    "querySelector_in reel_page t (sel_button_label l) = None" for t l
    by (simp_all add: querySelector_in_def find_None_iff sel_progressbar_def
          sel_button_label_def reel_no_attributes)
  show ?thesis
    by (simp add: isStoryVideo_def p reel_chain q)
qed

lemma reel_enhanced_rotation: "rotationStates (enhanceVideo 3 reel_page) 3 = Some 0"
proof (rule enhanceVideo_registers(2))
  show "isEnabled reel_page" by (simp add: reel_page_def)
  show "3 \<notin> processedVideos reel_page" by (simp add: reel_page_def)
  show "\<not> isStoryVideo reel_page 3" by (rule reel_not_story)
qed

theorem rotation_sequence_witness:
  "rotationStates (enhanceVideo 3 reel_page) 3 = Some 0
   \<and> rotationStates
       (menu_actions (rotation_ui_at 2 17) 3 [RotateLeft, RotateRight, RotateLeft, RotateLeft]
          (enhanceVideo 3 reel_page)) 3 = Some 180
   \<and> rotationStates
       (menu_actions (rotation_ui_at 2 17) 3 [RotateRight, RotateRight, RotateRight]
          (enhanceVideo 3 reel_page)) 3 = Some 270
   \<and> rotationStates
       (menu_actions (rotation_ui_at 2 17) 3 [RotateRight, RotateRight, RotateRight, RotateRight]
          (enhanceVideo 3 reel_page)) 3 = Some 0"
  using rotation_sequence [OF reel_enhanced_rotation,
      of "rotation_ui_at 2 17" "[RotateLeft, RotateRight, RotateLeft, RotateLeft]"]
    reel_enhanced_rotation
  by simp

text \<open>
  Claim C9. The flip action is an involution on the flip state of a video: two flips
  give back the value the first one read, and one flip negates it. A video that was never
  flipped reads as unflipped, and after two flips the map holds \<open>False\<close> for it.
\<close>

theorem flip_involution:
  "getFlip (handleItemAction ui video FlipHorizontally
              (handleItemAction ui video FlipHorizontally st)) video = getFlip st video
   \<and> flipStates (handleItemAction ui video FlipHorizontally
              (handleItemAction ui video FlipHorizontally st)) video = Some (getFlip st video)
   \<and> getFlip (handleItemAction ui video FlipHorizontally st) video = (\<not> getFlip st video)"
  by (simp add: handleItemAction_def getFlip_def Let_def)

section \<open>Time readout (claim C10)\<close>

lemma below_ten: "(d::nat) < 10 \<Longrightarrow> d \<in> {0, 1, 2, 3, 4, 5, 6, 7, 8, 9}"
  by auto

lemma digit_char_value: "d < 10 \<Longrightarrow> of_char (digit_char d) = (48 + d :: nat)"
  using below_ten [of d] by (auto simp: digit_char_def)

text \<open>\<open>nat_toString\<close> writes the decimal digits of its argument, most significant first.\<close>

lemma nat_toString_decimal:
  "foldl (\<lambda>a c. 10 * a + (of_char c - 48)) 0 (nat_toString n) = n"
proof (induction n rule: nat_toString.induct)
  case (1 n)
  show ?case
  proof (cases "n < 10")
    case True
    then show ?thesis by (simp add: nat_toString.simps [of n] digit_char_value)
  next
    case False
    have "n mod 10 < 10" by simp
    then have d: "of_char (digit_char (n mod 10)) = 48 + n mod 10" by (rule digit_char_value)
    show ?thesis using False "1.IH" by (simp add: nat_toString.simps [of n] d)
  qed
qed

lemma two_digits:
  assumes "s < 60"
  shows "padStart 2 (CHR ''0'') (nat_toString s) = [digit_char (s div 10), digit_char (s mod 10)]"
proof (cases "s < 10")
  case True
  then show ?thesis
    by (simp add: nat_toString.simps [of s] padStart_def digit_char_def)
next
  case False
  then have "s div 10 < 10" using assms by simp
  then show ?thesis using False
    by (simp add: nat_toString.simps [of s] nat_toString.simps [of "s div 10"] padStart_def)
qed

text \<open>For a non-negative \<open>x\<close>, \<^verbatim>\<open>Math.floor(x % 60)\<close> is the whole seconds modulo 60.\<close>

lemma fmod_nonneg:
  assumes "0 \<le> x"
  shows "\<lfloor>js_fmod x 60\<rfloor> = \<lfloor>x\<rfloor> mod 60"
proof -
  have q: "\<lfloor>x / 60\<rfloor> = \<lfloor>x\<rfloor> div 60"
    using floor_divide_real_eq_div [of 60 x] by simp
  have "js_fmod x 60 = x - of_int (60 * (\<lfloor>x\<rfloor> div 60))"
    using assms by (simp add: js_fmod_def js_trunc_def q)
  then have "\<lfloor>js_fmod x 60\<rfloor> = \<lfloor>x\<rfloor> - 60 * (\<lfloor>x\<rfloor> div 60)"
    by (simp only: floor_diff_of_int)
  also have "\<dots> = \<lfloor>x\<rfloor> mod 60"
    by (simp add: minus_mult_div_eq_mod)
  finally show ?thesis .
qed

lemma formatTime_nonneg:
  assumes "0 \<le> x"
  shows "formatTime (Finite x) =
           nat_toString (nat \<lfloor>x / 60\<rfloor>) @ '':'' @
           [digit_char (nat (\<lfloor>x\<rfloor> mod 60) div 10), digit_char (nat (\<lfloor>x\<rfloor> mod 60) mod 10)]"
proof -
  have m: "int_toString \<lfloor>x / 60\<rfloor> = nat_toString (nat \<lfloor>x / 60\<rfloor>)"
    using assms by (simp add: int_toString_def not_less)
  have s: "int_toString (\<lfloor>x\<rfloor> mod 60) = nat_toString (nat (\<lfloor>x\<rfloor> mod 60))"
    by (simp add: int_toString_def not_less)
  have "nat (\<lfloor>x\<rfloor> mod 60) < 60" by simp
  from two_digits [OF this] show ?thesis
    by (simp add: Let_def fmod_nonneg [OF assms] m s)
qed

lemma style_updateTime:
  "getStyle (updateTime ui video st) (ui_progressFill ui) ''width'' =
     Percent (progress_percent (currentTime (elems st video)) (or_zero (duration (elems st video))))"
  by (simp add: updateTime_def getStyle_def elem_ops Let_def)

lemma text_updateTime:
  "ui_playBtn ui \<noteq> ui_timeDisplay ui \<Longrightarrow> ui_bar ui \<noteq> ui_timeDisplay ui \<Longrightarrow>
   ui_progressFill ui \<noteq> ui_timeDisplay ui \<Longrightarrow>
   textContent (elems (updateTime ui video st) (ui_timeDisplay ui)) =
     formatTime (Finite (currentTime (elems st video))) @ '' / '' @
     formatTime (or_zero (duration (elems st video)))"
  by (simp add: updateTime_def elem_ops time_text_def Let_def)

text \<open>
  Claim C10. The formatter has a value for every number. For a finite \<open>x\<close> with
  \<open>0 \<le> x < 2^53\<close> it is the decimal \<open>\<lfloor>x / 60\<rfloor>\<close>, a colon and the two digits of the whole
  seconds modulo 60; for \<open>NaN\<close> and both infinities it is \<^verbatim>\<open>0:00\<close>. When the duration of the
  video is \<open>0\<close> or not finite, \<^verbatim>\<open>updateTime\<close> sets the fill width to 0 percent. The bound
  \<open>2^53\<close> is the range in which the real numbers of this theory and their decimal digits
  are the doubles of the program and the digits it prints.
\<close>

theorem formatTime_total:
  "(0 \<le> x \<and> x < 2 ^ 53 \<longrightarrow>
      formatTime (Finite x) =
        nat_toString (nat \<lfloor>x / 60\<rfloor>) @ '':'' @
        [digit_char (nat (\<lfloor>x\<rfloor> mod 60) div 10), digit_char (nat (\<lfloor>x\<rfloor> mod 60) mod 10)])
   \<and> (\<not> isFinite d \<longrightarrow> formatTime d = ''0:00'')
   \<and> (\<not> isFinite (duration (elems st video)) \<or> duration (elems st video) = Finite 0 \<longrightarrow>
        getStyle (updateTime ui video st) (ui_progressFill ui) ''width'' = Percent 0)"
proof (intro conjI impI)
  assume "0 \<le> x \<and> x < 2 ^ 53"
  then have "0 \<le> x" ..
  then show "formatTime (Finite x) =
        nat_toString (nat \<lfloor>x / 60\<rfloor>) @ '':'' @
        [digit_char (nat (\<lfloor>x\<rfloor> mod 60) div 10), digit_char (nat (\<lfloor>x\<rfloor> mod 60) mod 10)]"
    by (rule formatTime_nonneg)
next
  assume "\<not> isFinite d"
  then show "formatTime d = ''0:00''" by (cases d) simp_all
next
  assume "\<not> isFinite (duration (elems st video)) \<or> duration (elems st video) = Finite 0"
  then have "progress_percent (currentTime (elems st video)) (or_zero (duration (elems st video))) = 0"
    by (cases "duration (elems st video)") auto
  then show "getStyle (updateTime ui video st) (ui_progressFill ui) ''width'' = Percent 0"
    by (simp add: style_updateTime)
qed

theorem formatTime_total_witness:
  "0 \<le> (3725.9 :: real) \<and> (3725.9 :: real) < 2 ^ 53
   \<and> formatTime (Finite 3725.9) = ''62:05''
   \<and> \<not> isFinite NaN \<and> formatTime NaN = ''0:00''
   \<and> duration (elems reel_page 3) = NaN
   \<and> getStyle (updateTime (bar_ui_at 4) 3 reel_page) 9 ''width'' = Percent 0"
proof -
  have f: "\<lfloor>3725.9 :: real\<rfloor> = 3725" "\<lfloor>(3725.9 :: real) / 60\<rfloor> = 62" by linarith+
  have d: "duration (elems reel_page 3) = NaN"
    by (simp add: reel_page_def new_element_def)
  have u: "ui_progressFill (bar_ui_at 4) = 9" by (simp add: bar_ui_at_def)
  from formatTime_total [of "3725.9" NaN reel_page 3 "bar_ui_at 4"]
  show ?thesis
    using f d u
    by (simp add: nat_toString.simps [of 62] nat_toString.simps [of 6] digit_char_def)
qed

section \<open>Volume intent (claim C3)\<close>

text \<open>
  Claim C3. When the track has a width, a click at \<open>clientX\<close> computes the clamped pointer
  fraction \<open>pos\<close> in \<open>[0, 1]\<close>; at the end the intent is \<open>(pos, unmuted)\<close> and so is the video, and
  the enforcement step then changes nothing. In program order the two intent writes come
  first: after at most two assignments the element store is untouched, and from the
  second assignment on the intent is already \<open>(pos, unmuted)\<close>.
\<close>

theorem volume_click_intent_first:
  assumes "rectWidth \<noteq> 0"
  shows "(let pos = volumeTrack_pos clientX rectLeft rectWidth;
              st' = volumeTrack_click video clientX rectLeft rectWidth st
          in 0 \<le> pos \<and> pos \<le> 1
           \<and> intendedVolume st' video = Some pos \<and> intendedMuted st' video = Some False
           \<and> volume (elems st' video) = pos \<and> \<not> muted (elems st' video)
           \<and> enforceVolumeState video st' = st'
           \<and> (\<forall>k. let mid = run_assignments (take k (volumeTrack_assignments video pos)) st
                 in (k \<le> 2 \<longrightarrow> elems mid = elems st)
                  \<and> (2 \<le> k \<longrightarrow> intendedVolume mid video = Some pos
                                \<and> intendedMuted mid video = Some False)))"
proof -
  define pos where "pos = volumeTrack_pos clientX rectLeft rectWidth"
  have range: "0 \<le> pos \<and> pos \<le> 1" by (simp add: pos_def volumeTrack_pos_def)
  have click: "volumeTrack_click video clientX rectLeft rectWidth st =
                 run_assignments (volumeTrack_assignments video pos) st"
    using assms by (simp add: volumeTrack_click_def pos_def)
  let ?st' = "run_assignments (volumeTrack_assignments video pos) st"
  have fin: "intendedVolume ?st' video = Some pos" "intendedMuted ?st' video = Some False"
    "volume (elems ?st' video) = pos" "\<not> muted (elems ?st' video)"
    by (simp_all add: run_assignments_def volumeTrack_assignments_def)
  have enf: "enforceVolumeState video ?st' = ?st'"
    by (simp add: enforceVolumeState_def fin)
  have order:
    "(k \<le> 2 \<longrightarrow> elems (run_assignments (take k (volumeTrack_assignments video pos)) st) = elems st)
     \<and> (2 \<le> k \<longrightarrow>
          intendedVolume (run_assignments (take k (volumeTrack_assignments video pos)) st) video
            = Some pos
          \<and> intendedMuted (run_assignments (take k (volumeTrack_assignments video pos)) st) video
            = Some False)" for k
  proof -
    consider "k = 0" | "k = 1" | "k = 2" | "k = 3" | "4 \<le> k" by linarith
    then show ?thesis
    proof cases
      case 1 then show ?thesis by (simp add: run_assignments_def)
    next
      case 2 then show ?thesis by (simp add: run_assignments_def volumeTrack_assignments_def)
    next
      case 3 then show ?thesis
        by (simp add: run_assignments_def volumeTrack_assignments_def numeral_2_eq_2)
    next
      case 4 then show ?thesis
        by (simp add: run_assignments_def volumeTrack_assignments_def numeral_3_eq_3)
    next
      case 5 then show ?thesis
        by (simp add: run_assignments_def volumeTrack_assignments_def)
    qed
  qed
  show ?thesis
    unfolding Let_def pos_def [symmetric] click
    using range fin enf order by blast
qed

text \<open>
  A track 80 pixels wide that starts at 100: a click at 130 is the fraction 3/8, a click
  at 250 is clamped to 1.
\<close>

theorem volume_click_intent_first_witness:
  "(80 :: real) \<noteq> 0
   \<and> volumeTrack_pos 130 100 80 = 3 / 8
   \<and> intendedVolume (volumeTrack_click 3 130 100 80 reel_page) 3 = Some (3 / 8)
   \<and> intendedMuted (volumeTrack_click 3 130 100 80 reel_page) 3 = Some False
   \<and> volume (elems (volumeTrack_click 3 130 100 80 reel_page) 3) = 3 / 8
   \<and> enforceVolumeState 3 (volumeTrack_click 3 130 100 80 reel_page)
       = volumeTrack_click 3 130 100 80 reel_page
   \<and> volumeTrack_pos 250 100 80 = 1"
proof -
  have p: "volumeTrack_pos 130 100 80 = 3 / 8" "volumeTrack_pos 250 100 80 = 1"
    by (simp_all add: volumeTrack_pos_def)
  have n: "(80 :: real) \<noteq> 0" by simp
  from volume_click_intent_first [OF n, of 130 100 3 reel_page]
  show ?thesis unfolding Let_def p using p by simp
qed

section \<open>Debounce (claim C8)\<close>










section \<open>Transform engine (claims C4, C5 and C6)\<close>

lemma unloaded_container:
  "findVideoContainer reel_unloaded 3 = Some 2"
  "findVideoContainer fullscreen_unloaded 3 = Some 2"
proof -
  have "findVideoContainer reel_unloaded 3 = findVideoContainer reel_page 3"
    by (rule findVideoContainer_cong) (simp_all add: reel_unloaded_def update_elem_def)
  then show "findVideoContainer reel_unloaded 3 = Some 2"
    by (simp add: reel_container)
  then show "findVideoContainer fullscreen_unloaded 3 = Some 2"
    by (simp add: fullscreen_unloaded_def
          findVideoContainer_cong [of "reel_unloaded\<lparr>fullscreenElement := Some 2\<rparr>" reel_unloaded])
qed

lemma unloaded_facts:
  "videoWidth (elems reel_unloaded 3) = 0" "videoHeight (elems reel_unloaded 3) = 0"
  "clientWidth (elems reel_unloaded 3) = 400" "clientHeight (elems reel_unloaded 3) = 225"
  "fullscreenElement reel_unloaded = None" "getFlip reel_unloaded 3 = False"
  "innerWidth reel_unloaded = 1280" "innerHeight reel_unloaded = 720"
  "getStyle reel_unloaded 2 ''height'' = Unset"
  "document reel_unloaded = Node 0 [Node 1 [Node 2 [Node 3 []]]]"
  by (simp_all add: reel_unloaded_def update_elem_def reel_page_def new_element_def
        getFlip_def getStyle_def)

lemma feed_chain:
  "parentChain feed_page 3 =
     [Node 2 [Node 3 []], Node 1 [Node 2 [Node 3 []], Node 4 [Node 5 []]],
      Node 0 [Node 1 [Node 2 [Node 3 []], Node 4 [Node 5 []]]]]"
  by (simp add: parentChain_def feed_page_def)

lemma feed_container: "findVideoContainer feed_page 3 = Some 2"
  by (simp add: findVideoContainer_def feed_chain)
     (simp add: feed_page_def reel_page_def new_element_def)

lemma feed_facts:
  "videoWidth (elems feed_page 3) = 1920" "videoHeight (elems feed_page 3) = 1080"
  "fullscreenElement feed_page = Some 4" "getFlip feed_page 3 = False"
  "innerWidth feed_page = 1280" "innerHeight feed_page = 720"
  "getStyle feed_page 2 ''height'' = Unset"
  by (simp_all add: feed_page_def reel_page_def new_element_def getFlip_def getStyle_def)




text \<open>
  Claim C5 as stated fails in two places. The engine asks whether the document has a
  fullscreen element, not whether the video is in it: on the feed page the first video is
  outside the fullscreen element, and a rotation to 90 degrees (as the listener of
  \<^verbatim>\<open>fullscreenchange\<close> of every enhanced video applies it again) gives it the cover scale
  32/27 and leaves the height of its container alone. And before the metadata is loaded
  the native width reads 0, while the height given to the container is the rendered width
  times 0.55, 220 pixels for 400.
\<close>

theorem inline_scale_not_fixed:
  "fullscreenElement feed_page = Some 4
   \<and> \<not> in_fullscreen feed_page 3
   \<and> findVideoContainer feed_page 3 = Some 2
   \<and> videoWidth (elems feed_page 3) = 1920
   \<and> getStyle (applyRotation 3 90 feed_page) 3 ''transform'' =
        RotateScale 90 (Finite (32 / 27)) False
   \<and> getStyle (applyRotation 3 90 feed_page) 2 ''height'' = Unset
   \<and> getStyle (handleFsChange 3 (feed_page\<lparr>rotationStates := [3 \<mapsto> 90]\<rparr>)) 3 ''transform'' =
        RotateScale 90 (Finite (32 / 27)) False
   \<and> fullscreenElement reel_unloaded = None
   \<and> \<not> in_fullscreen reel_unloaded 3
   \<and> findVideoContainer reel_unloaded 3 = Some 2
   \<and> videoWidth (elems reel_unloaded 3) = 0
   \<and> getStyle (applyRotation 3 90 reel_unloaded) 3 ''transform'' =
        RotateScale 90 (Finite 0.55) False
   \<and> getStyle (applyRotation 3 90 reel_unloaded) 2 ''height'' = Px 220"
proof -
  have n: "\<not> in_fullscreen feed_page 3" "\<not> in_fullscreen reel_unloaded 3"
    by (simp_all add: in_fullscreen_def feed_facts feed_chain unloaded_facts)
  have f: "getStyle (applyRotation 3 90 feed_page) 3 ''transform'' =
        RotateScale 90 (Finite (32 / 27)) False"
    "getStyle (applyRotation 3 90 feed_page) 2 ''height'' = Unset"
    using feed_facts
    by (simp_all add: applyRotation_def feed_container Let_def or_else_def js_div_def)
  let ?st = "feed_page\<lparr>rotationStates := [3 \<mapsto> 90]\<rparr>"
  have c: "findVideoContainer ?st 3 = Some 2"
    using feed_container by (simp add: findVideoContainer_cong [of ?st feed_page])
  have r: "getRotation ?st 3 = 90" by (simp add: getRotation_def)
  have g: "videoWidth (elems ?st 3) = 1920" "videoHeight (elems ?st 3) = 1080"
    "fullscreenElement ?st = Some 4" "getFlip ?st 3 = False"
    "innerWidth ?st = 1280" "innerHeight ?st = 720"
    using feed_facts by (simp_all add: getFlip_def)
  have h: "getStyle (handleFsChange 3 ?st) 3 ''transform'' =
        RotateScale 90 (Finite (32 / 27)) False"
    unfolding handleFsChange_def r using g
    by (simp add: applyRotation_def c Let_def or_else_def js_div_def)
  have u: "getStyle (applyRotation 3 90 reel_unloaded) 3 ''transform'' =
        RotateScale 90 (Finite 0.55) False"
    "getStyle (applyRotation 3 90 reel_unloaded) 2 ''height'' = Px 220"
    using unloaded_facts
    by (simp_all add: applyRotation_def unloaded_container Let_def or_else_def)
  show ?thesis
    using n f h u feed_facts feed_container unloaded_facts unloaded_container by simp
qed

text \<open>
  Claim C5, amended. While the document has no fullscreen element, for 90 or 270 degrees,
  the scale written into the transform is 0.55 and the height of the resolved container is
  set to \<open>W\<close> times 0.55, in pixels, where \<open>W\<close> is the native width of the video, or the
  rendered width of the element when the native width reads 0
  (\<^verbatim>\<open>video.videoWidth || video.clientWidth\<close>).
\<close>

theorem inline_fixed_scale:
  assumes "findVideoContainer st video = Some container"
    and "fullscreenElement st = None"
    and "degrees = 90 \<or> degrees = 270"
  shows "getStyle (applyRotation video degrees st) video ''transform'' =
           RotateScale degrees (Finite 0.55) (getFlip st video)
       \<and> getStyle (applyRotation video degrees st) container ''height'' =
           Px (or_else (videoWidth (elems st video)) (clientWidth (elems st video)) * 0.55)
       \<and> (videoWidth (elems st video) \<noteq> 0 \<longrightarrow>
            getStyle (applyRotation video degrees st) container ''height'' =
              Px (videoWidth (elems st video) * 0.55))
       \<and> (videoWidth (elems st video) = 0 \<longrightarrow>
            getStyle (applyRotation video degrees st) container ''height'' =
              Px (clientWidth (elems st video) * 0.55))"
  using assms by (auto simp: applyRotation_def Let_def or_else_def)

theorem inline_fixed_scale_witness:
  "findVideoContainer reel_page 3 = Some 2
   \<and> fullscreenElement reel_page = None
   \<and> videoWidth (elems reel_page 3) = 1920
   \<and> getStyle (applyRotation 3 90 reel_page) 3 ''transform'' = RotateScale 90 (Finite 0.55) False
   \<and> getStyle (applyRotation 3 90 reel_page) 2 ''height'' = Px 1056
   \<and> getStyle (applyRotation 3 270 reel_page) 2 ''height'' = Px 1056
   \<and> findVideoContainer reel_unloaded 3 = Some 2
   \<and> fullscreenElement reel_unloaded = None
   \<and> videoWidth (elems reel_unloaded 3) = 0
   \<and> clientWidth (elems reel_unloaded 3) = 400
   \<and> getStyle (applyRotation 3 270 reel_unloaded) 3 ''transform'' =
        RotateScale 270 (Finite 0.55) False
   \<and> getStyle (applyRotation 3 270 reel_unloaded) 2 ''height'' = Px 220"
proof -
  have d: "videoWidth (elems reel_page 3) = 1920" "fullscreenElement reel_page = None"
    "getFlip reel_page 3 = False"
    by (simp_all add: reel_page_def new_element_def getFlip_def)
  from inline_fixed_scale [OF reel_container d(2), of 90]
    inline_fixed_scale [OF reel_container d(2), of 270]
    inline_fixed_scale [OF unloaded_container(1) unloaded_facts(5), of 270]
  show ?thesis
    using d reel_container unloaded_container(1) unloaded_facts
    by (simp add: or_else_def)
qed

text \<open>
  When the native size is not known yet (\<^verbatim>\<open>videoWidth\<close> is 0 before the metadata is
  loaded) the engine falls back to the rendered size of the element.
\<close>

lemma inline_scale_before_metadata:
  assumes "findVideoContainer st video = Some container"
    and "fullscreenElement st = None"
    and "degrees = 90 \<or> degrees = 270"
    and "videoWidth (elems st video) = 0"
  shows "getStyle (applyRotation video degrees st) container ''height'' =
           Px (clientWidth (elems st video) * 0.55)"
  using assms by (auto simp: applyRotation_def Let_def or_else_def)

section \<open>Reset of the transform (claim C6, continued)\<close>

lemma applyRotation_sizes [simp]:
  "clientHeight (elems (applyRotation video d st) i) = clientHeight (elems st i)"
  "clientWidth (elems (applyRotation video d st) i) = clientWidth (elems st i)"
  by (simp_all add: applyRotation_def Let_def split: option.splits)

lemma findVideoContainer_applyRotation [simp]:
  "findVideoContainer (applyRotation video d st) v = findVideoContainer st v"
  by (rule findVideoContainer_cong) simp_all

lemma getFlip_applyRotation [simp]: "getFlip (applyRotation video d st) v = getFlip st v"
  by (simp add: getFlip_def)







section \<open>Stories are skipped (claim C7)\<close>

lemma querySelector_in_None:
  "(querySelector_in st t sel = None) = (\<not> has_descendant st t sel)"
  by (auto simp: querySelector_in_def has_descendant_def find_None_iff)

lemma story_loop_step:
  "depth < 12 \<Longrightarrow>
   story_loop st (parent # rest) depth = (story_marker st parent \<or> story_loop st rest (Suc depth))"
  by (auto simp: querySelector_in_None story_marker_def)

lemma story_loop_iff:
  "story_loop st chain depth = (\<exists>p \<in> set (take (12 - depth) chain). story_marker st p)"
proof (induction chain arbitrary: depth)
  case Nil
  then show ?case by simp
next
  case (Cons parent rest)
  show ?case
  proof (cases "depth < 12")
    case True
    then have "12 - depth = Suc (12 - Suc depth)" by simp
    then have t: "take (12 - depth) (parent # rest) = parent # take (12 - Suc depth) rest"
      by (simp only: take_Suc_Cons)
    show ?thesis
      unfolding t story_loop_step [OF True] Cons.IH [of "Suc depth"] by simp
  next
    case False
    then show ?thesis by simp
  qed
qed

text \<open>The classifier of the source is the classifier the specification describes.\<close>

lemma isStoryVideo_iff: "isStoryVideo st video = story_by_spec st video"
  by (simp add: isStoryVideo_def story_by_spec_def story_loop_iff)

lemma enhanceVideo_story: "isStoryVideo st video \<Longrightarrow> enhanceVideo video st = st"
  by (simp add: enhanceVideo_def)

lemma enhanceVideo_story_repeated:
  "isStoryVideo st video \<Longrightarrow> (enhanceVideo video ^^ n) st = st"
  by (induction n) (simp_all add: enhanceVideo_story)

lemma enhance_stories_only:
  "\<forall>v \<in> set vs. isStoryVideo st v \<Longrightarrow> foldl (\<lambda>s video. enhanceVideo video s) st vs = st"
  by (induction vs) (simp_all add: enhanceVideo_story)

text \<open>On a story path every video is a story, so discovery changes nothing at all.\<close>

lemma story_path_inert:
  assumes "startsWith (pathname st) ''/stories/''"
  shows "processExistingVideos st = st" and "onMutations nodes st = st"
proof -
  have s: "isStoryVideo st v" for v using assms by (simp add: isStoryVideo_def)
  show "processExistingVideos st = st"
    by (simp add: processExistingVideos_def enhance_stories_only s)
  have "onAddedNode node st = st" for node
    by (simp add: onAddedNode_def Let_def enhanceVideo_story s enhance_stories_only)
  then show "onMutations nodes st = st"
    unfolding onMutations_def by (induction nodes) simp_all
qed

text \<open>
  Claim C7. The classifier returns true exactly when the path starts with \<^verbatim>\<open>/stories/\<close> or
  one of the first 12 ancestors of the video contains a \<^verbatim>\<open>div\<close> with the role
  \<^verbatim>\<open>progressbar\<close>, or contains a button labelled Close or Story while being itself a
  dialog or a \<^verbatim>\<open>section\<close>. In every state in which it returns true for a video,
  \<^verbatim>\<open>enhanceVideo\<close> on that video changes nothing, however often it is called: the video
  is not registered and no element is created or attached. The same holds for a batch of
  videos that are all stories, and on a story path for every pass of the discovery.
\<close>

theorem story_never_enhanced:
  "isStoryVideo st video = story_by_spec st video
   \<and> (isStoryVideo st video \<longrightarrow>
        enhanceVideo video st = st \<and> (enhanceVideo video ^^ n) st = st)
   \<and> ((\<forall>v \<in> set vs. isStoryVideo st v) \<longrightarrow>
        foldl (\<lambda>s video. enhanceVideo video s) st vs = st)
   \<and> (startsWith (pathname st) ''/stories/'' \<longrightarrow>
        processExistingVideos st = st \<and> onMutations nodes st = st)"
  by (simp add: isStoryVideo_iff [symmetric] enhanceVideo_story enhanceVideo_story_repeated
        enhance_stories_only story_path_inert)

lemma story_page_chain:
  "parentChain story_page 3 =
     [Node 5 [Node 3 []], Node 2 [Node 4 [], Node 5 [Node 3 []]],
      Node 1 [Node 2 [Node 4 [], Node 5 [Node 3 []]]],
      Node 0 [Node 1 [Node 2 [Node 4 [], Node 5 [Node 3 []]]]]]"
  by (simp add: parentChain_def story_page_def)

lemma story_page_marker: "story_marker story_page (Node 2 [Node 4 [], Node 5 [Node 3 []]])"
proof -
  have "sel_progressbar (elems story_page 4)"
    by (simp add: story_page_def sel_progressbar_def new_element_def)
  then show ?thesis
    by (simp add: story_marker_def has_descendant_def)
qed

lemma story_page_is_story: "isStoryVideo story_page 3"
  using story_page_marker
  by (simp add: isStoryVideo_iff story_by_spec_def story_page_chain)

theorem story_never_enhanced_witness:
  "isStoryVideo story_page 3
   \<and> story_by_spec story_page 3
   \<and> \<not> startsWith (pathname story_page) ''/stories/''
   \<and> enhanceVideo 3 story_page = story_page
   \<and> (enhanceVideo 3 ^^ 7) story_page = story_page
   \<and> foldl (\<lambda>s video. enhanceVideo video s) story_page [3, 3] = story_page
   \<and> 3 \<notin> processedVideos ((enhanceVideo 3 ^^ 7) story_page)
   \<and> isEnabled story_page"
proof -
  have p: "\<not> startsWith (pathname story_page) ''/stories/''" "isEnabled story_page"
    "3 \<notin> processedVideos story_page"
    by (simp_all add: story_page_def reel_page_def startsWith_def)
  from story_never_enhanced [of story_page 3 7 "[3, 3]" "[]"]
  show ?thesis using story_page_is_story p by simp
qed

section \<open>Disabling and re-enabling (claim C2)\<close>

lemma handleItemAction_flip:
  "flipStates (handleItemAction ui video FlipHorizontally st) video = Some (\<not> getFlip st video)"
  by (simp add: handleItemAction_def Let_def)

section \<open>The effect of one enhancement, and the scenario of claim C2 in full\<close>

lemma elems_other:
  "i \<noteq> e \<Longrightarrow> elems (update_elem e f st) i = elems st i"
  "i \<noteq> e \<Longrightarrow> elems (createElement e tag cls st) i = elems st i"
  "i \<noteq> e \<Longrightarrow> elems (setStyle e p v st) i = elems st i"
  "i \<noteq> e \<Longrightarrow> elems (setAttribute e a w st) i = elems st i"
  "i \<noteq> e \<Longrightarrow> elems (classList_add e cl st) i = elems st i"
  "i \<noteq> e \<Longrightarrow> elems (classList_remove e cl st) i = elems st i"
  by (simp_all add: elem_ops)

lemma elems_lookup:
  "elems (update_elem e f st) i = (if i = e then f (elems st e) else elems st i)"
  "elems (createElement e tag cls st) i = (if i = e then new_element tag cls else elems st i)"
  "elems (setStyle e p v st) i =
     (if i = e then (elems st e)\<lparr>style := (style (elems st e))(p := v)\<rparr> else elems st i)"
  "elems (setAttribute e a w st) i =
     (if i = e then (elems st e)\<lparr>attributes := (attributes (elems st e))(a := Some w)\<rparr>
      else elems st i)"
  by (simp_all add: elem_ops)

text \<open>
  \<^verbatim>\<open>addCustomControls\<close> creates 13 elements, attaches the bar to the container and leaves
  every element that existed before as it was.
\<close>

lemma addCustomControls_effect:
  assumes "findVideoContainer st video = Some c"
  shows "document (addCustomControls video st) =
           append_child c (bar_fragment (bar_ui_at (nextId st))) (remove_node (nextId st) (document st))"
    and "nextId (addCustomControls video st) = nextId st + 13"
    and "customControls (addCustomControls video st) = (customControls st)(video \<mapsto> nextId st)"
  using assms
  by (simp_all add: addCustomControls_def updateVolumeUI_def elem_ops Let_def bar_ui_at_def
        bar_fragment_def)

lemma addCustomControls_old:
  assumes "findVideoContainer st video = Some c" "i < nextId st"
  shows "elems (addCustomControls video st) i = elems st i"
  using assms
  by (simp add: addCustomControls_def updateVolumeUI_def Let_def bar_ui_at_def elems_other
        del: update_elem_frame(16) createElement_frame(16))

text \<open>
  \<^verbatim>\<open>addRotationButton\<close> creates 5 elements, attaches the button and the menu to the
  container, and of the elements that existed before touches the inline position of the
  container only.
\<close>

lemma addRotationButton_effect:
  assumes "findVideoContainer st video = Some c"
  shows "document (addRotationButton video st) =
           append_child c
             (Node (nextId st + 1) [Node (nextId st + 2) [], Node (nextId st + 3) [],
                                    Node (nextId st + 4) []])
             (remove_node (nextId st + 1)
                (append_child c (Node (nextId st) []) (remove_node (nextId st) (document st))))"
    and "nextId (addRotationButton video st) = nextId st + 5"
    and "customControls (addRotationButton video st) = customControls st"
  using assms
  by (simp_all add: addRotationButton_def rotation_ui_at_def elem_ops Let_def)

lemma addRotationButton_old:
  assumes "findVideoContainer st video = Some c" "i < nextId st" "i \<noteq> c"
  shows "elems (addRotationButton video st) i = elems st i"
  using assms
  by (simp add: addRotationButton_def rotation_ui_at_def Let_def elems_other
        del: update_elem_frame(16) createElement_frame(16))

lemma addRotationButton_container:
  assumes "findVideoContainer st video = Some c" "c < nextId st"
  shows "elems (addRotationButton video st) c =
           (if computedPosition (elems st c) = ''static''
            then (elems st c)\<lparr>style := (style (elems st c))(''position'' := Text ''relative'')\<rparr>
            else elems st c)"
  using assms
  by (simp add: addRotationButton_def rotation_ui_at_def Let_def elems_other
        del: update_elem_frame(16) createElement_frame(16))
     (simp add: setStyle_def)

lemma addRotationButton_new:
  assumes "findVideoContainer st video = Some c"
  shows "classList (elems (addRotationButton video st) (nextId st)) = [''insta-control-rotate-btn'']"
    and "classList (elems (addRotationButton video st) (nextId st + 1)) =
           [''insta-control-rotate-menu'']"
    and "tagName (elems (addRotationButton video st) (nextId st)) = ''BUTTON''"
    and "tagName (elems (addRotationButton video st) (nextId st + 1)) = ''DIV''"
    and "tagName (elems (addRotationButton video st) (nextId st + 2)) = ''BUTTON''"
    and "tagName (elems (addRotationButton video st) (nextId st + 3)) = ''BUTTON''"
    and "tagName (elems (addRotationButton video st) (nextId st + 4)) = ''BUTTON''"
  using assms
  by (simp_all add: addRotationButton_def rotation_ui_at_def Let_def elems_lookup new_element_def
        del: update_elem_frame(16) createElement_frame(16))

lemma addCustomControls_new:
  assumes "findVideoContainer st video = Some c"
  shows "tagName (elems (addCustomControls video st) (nextId st)) = ''DIV''"
    and "tagName (elems (addCustomControls video st) (nextId st + 1)) = ''BUTTON''"
    and "tagName (elems (addCustomControls video st) (nextId st + 2)) = ''DIV''"
    and "tagName (elems (addCustomControls video st) (nextId st + 3)) = ''DIV''"
    and "tagName (elems (addCustomControls video st) (nextId st + 4)) = ''DIV''"
    and "tagName (elems (addCustomControls video st) (nextId st + 5)) = ''DIV''"
    and "tagName (elems (addCustomControls video st) (nextId st + 6)) = ''DIV''"
    and "tagName (elems (addCustomControls video st) (nextId st + 7)) = ''DIV''"
    and "tagName (elems (addCustomControls video st) (nextId st + 8)) = ''BUTTON''"
    and "tagName (elems (addCustomControls video st) (nextId st + 9)) = ''DIV''"
    and "tagName (elems (addCustomControls video st) (nextId st + 10)) = ''DIV''"
    and "tagName (elems (addCustomControls video st) (nextId st + 11)) = ''DIV''"
    and "tagName (elems (addCustomControls video st) (nextId st + 12)) = ''BUTTON''"
  using assms
  by (simp_all add: addCustomControls_def updateVolumeUI_def Let_def bar_ui_at_def elems_lookup
        new_element_def del: update_elem_frame(16) createElement_frame(16))

subsection \<open>Elements that exist keep their tag, attributes and size\<close>

lemma style_ops_frame [simp]:
  "processedVideos (setStyle e p v st) = processedVideos st"
  "customControls (setStyle e p v st) = customControls st"
  "isEnabled (setStyle e p v st) = isEnabled st"
  "intendedVolume (setStyle e p v st) = intendedVolume st"
  "intendedMuted (setStyle e p v st) = intendedMuted st"
  "observer (setStyle e p v st) = observer st"
  "nextId (setStyle e p v st) = nextId st"
  "bodyId (setStyle e p v st) = bodyId st"
  "pathname (setStyle e p v st) = pathname st"
  "innerWidth (setStyle e p v st) = innerWidth st"
  "innerHeight (setStyle e p v st) = innerHeight st"
  by (simp_all add: setStyle_def)

lemma classList_ops_frame [simp]:
  "processedVideos (classList_add e c st) = processedVideos st"
  "rotationStates (classList_add e c st) = rotationStates st"
  "flipStates (classList_add e c st) = flipStates st"
  "customControls (classList_add e c st) = customControls st"
  "isEnabled (classList_add e c st) = isEnabled st"
  "document (classList_add e c st) = document st"
  "nextId (classList_add e c st) = nextId st"
  "bodyId (classList_add e c st) = bodyId st"
  "pathname (classList_add e c st) = pathname st"
  "fullscreenElement (classList_add e c st) = fullscreenElement st"
  "processedVideos (classList_remove e c st) = processedVideos st"
  "rotationStates (classList_remove e c st) = rotationStates st"
  "flipStates (classList_remove e c st) = flipStates st"
  "customControls (classList_remove e c st) = customControls st"
  "isEnabled (classList_remove e c st) = isEnabled st"
  "document (classList_remove e c st) = document st"
  "nextId (classList_remove e c st) = nextId st"
  "bodyId (classList_remove e c st) = bodyId st"
  "pathname (classList_remove e c st) = pathname st"
  "fullscreenElement (classList_remove e c st) = fullscreenElement st"
  by (simp_all add: classList_add_def classList_remove_def)

lemma classList_ops_classes:
  "classList (elems (classList_remove e c st) i) =
     (if i = e then filter (\<lambda>d. d \<noteq> c) (classList (elems st e)) else classList (elems st i))"
  "classList (elems (classList_add e c st) i) =
     (if i = e then (if c \<in> set (classList (elems st e)) then classList (elems st e)
                     else classList (elems st e) @ [c])
      else classList (elems st i))"
  by (simp_all add: classList_add_def classList_remove_def)

lemma skeleton_controls [simp]:
  "skeleton (x\<lparr>controls := b\<rparr>) = skeleton x"
  "skeleton (x\<lparr>style := s\<rparr>) = skeleton x"
  "skeleton (x\<lparr>classList := c\<rparr>) = skeleton x"
  by (simp_all add: skeleton_def)

lemma skeleton_frame [simp]:
  "skeleton (elems (setStyle e p v st) i) = skeleton (elems st i)"
  "skeleton (elems (classList_add e c st) i) = skeleton (elems st i)"
  "skeleton (elems (classList_remove e c st) i) = skeleton (elems st i)"
  "skeleton (elems (update_elem e (controls_update g) st) i) = skeleton (elems st i)"
  by (simp_all add: skeleton_def elem_ops)

lemma classList_frame [simp]:
  "classList (elems (setStyle e p v st) i) = classList (elems st i)"
  "classList (elems (update_elem e (controls_update g) st) i) = classList (elems st i)"
  by (simp_all add: elem_ops)

lemma addCustomControls_old_any:
  "i < nextId st \<Longrightarrow> elems (addCustomControls video st) i = elems st i"
proof (cases "findVideoContainer st video")
  case None
  then show ?thesis by (simp add: addCustomControls_def)
next
  case (Some c)
  assume "i < nextId st"
  with Some show ?thesis by (rule addCustomControls_old)
qed

lemma addCustomControls_nextId: "nextId st \<le> nextId (addCustomControls video st)"
  by (cases "findVideoContainer st video")
     (simp_all add: addCustomControls_effect(2), simp add: addCustomControls_def)

lemma addRotationButton_old_any:
  assumes "i < nextId st"
  shows "skeleton (elems (addRotationButton video st) i) = skeleton (elems st i)"
    and "classList (elems (addRotationButton video st) i) = classList (elems st i)"
proof -
  show "skeleton (elems (addRotationButton video st) i) = skeleton (elems st i)"
  proof (cases "findVideoContainer st video")
    case None
    then show ?thesis by (simp add: addRotationButton_def)
  next
    case (Some c)
    show ?thesis
    proof (cases "i = c")
      case True
      then show ?thesis
        using addRotationButton_container [OF Some] assms by (simp add: skeleton_def)
    next
      case False
      then show ?thesis using addRotationButton_old [OF Some assms] by simp
    qed
  qed
  show "classList (elems (addRotationButton video st) i) = classList (elems st i)"
  proof (cases "findVideoContainer st video")
    case None
    then show ?thesis by (simp add: addRotationButton_def)
  next
    case (Some c)
    show ?thesis
    proof (cases "i = c")
      case True
      then show ?thesis
        using addRotationButton_container [OF Some] assms by simp
    next
      case False
      then show ?thesis using addRotationButton_old [OF Some assms] by simp
    qed
  qed
qed

lemma addRotationButton_nextId: "nextId st \<le> nextId (addRotationButton video st)"
  by (cases "findVideoContainer st video")
     (simp_all add: addRotationButton_effect(2), simp add: addRotationButton_def)

text \<open>
  When \<^verbatim>\<open>enhanceVideo\<close> does not return early, it is the two constructors applied to a
  state that differs from the one before in the registry and in \<^verbatim>\<open>video.controls\<close>.
\<close>

lemma enhanceVideo_cases:
  "enhanceVideo video st = st \<or>
   (\<exists>s. enhanceVideo video st = addRotationButton video (addCustomControls video s)
        \<and> nextId s = nextId st
        \<and> (\<forall>i. skeleton (elems s i) = skeleton (elems st i))
        \<and> (\<forall>i. classList (elems s i) = classList (elems st i)))"
proof (cases "enhanceVideo video st = st")
  case True
  then show ?thesis by simp
next
  case False
  let ?s = "update_elem video (\<lambda>x. x\<lparr>controls := False\<rparr>)
              (st\<lparr>processedVideos := insert video (processedVideos st),
                   rotationStates := (rotationStates st)(video \<mapsto> 0),
                   intendedVolume := (intendedVolume st)(video \<mapsto> volume (elems st video)),
                   intendedMuted := (intendedMuted st)(video \<mapsto> muted (elems st video))\<rparr>)"
  have "enhanceVideo video st = addRotationButton video (addCustomControls video ?s)"
    using False by (simp add: enhanceVideo_def Let_def split: if_splits)
  moreover have "nextId ?s = nextId st" by simp
  moreover have "\<forall>i. skeleton (elems ?s i) = skeleton (elems st i)" by simp
  moreover have "\<forall>i. classList (elems ?s i) = classList (elems st i)" by simp
  ultimately show ?thesis by blast
qed

lemma constructors_old:
  assumes "i < nextId s"
  shows "skeleton (elems (addRotationButton video (addCustomControls video s)) i)
           = skeleton (elems s i)"
    and "classList (elems (addRotationButton video (addCustomControls video s)) i)
           = classList (elems s i)"
    and "nextId s \<le> nextId (addRotationButton video (addCustomControls video s))"
proof -
  have n: "i < nextId (addCustomControls video s)"
    using assms addCustomControls_nextId [of s video] by linarith
  from addRotationButton_old_any [OF n] addCustomControls_old_any [OF assms]
  show "skeleton (elems (addRotationButton video (addCustomControls video s)) i)
           = skeleton (elems s i)"
    and "classList (elems (addRotationButton video (addCustomControls video s)) i)
           = classList (elems s i)" by simp_all
  show "nextId s \<le> nextId (addRotationButton video (addCustomControls video s))"
    using addCustomControls_nextId [of s video]
      addRotationButton_nextId [of "addCustomControls video s" video] by linarith
qed

lemma enhanceVideo_nextId: "nextId st \<le> nextId (enhanceVideo video st)"
  using enhanceVideo_cases [of video st]
proof
  assume "enhanceVideo video st = st"
  then show ?thesis by simp
next
  assume "\<exists>s. enhanceVideo video st = addRotationButton video (addCustomControls video s)
        \<and> nextId s = nextId st
        \<and> (\<forall>i. skeleton (elems s i) = skeleton (elems st i))
        \<and> (\<forall>i. classList (elems s i) = classList (elems st i))"
  then obtain s where s: "enhanceVideo video st = addRotationButton video (addCustomControls video s)"
    "nextId s = nextId st" by blast
  have "nextId s \<le> nextId (addRotationButton video (addCustomControls video s))"
    using addCustomControls_nextId [of s video]
      addRotationButton_nextId [of "addCustomControls video s" video] by linarith
  then show ?thesis using s by simp
qed

lemma enhanceVideo_old:
  assumes "i < nextId st"
  shows "skeleton (elems (enhanceVideo video st) i) = skeleton (elems st i)
       \<and> classList (elems (enhanceVideo video st) i) = classList (elems st i)"
  using enhanceVideo_cases [of video st]
proof
  assume "enhanceVideo video st = st"
  then show ?thesis by simp
next
  assume "\<exists>s. enhanceVideo video st = addRotationButton video (addCustomControls video s)
        \<and> nextId s = nextId st
        \<and> (\<forall>i. skeleton (elems s i) = skeleton (elems st i))
        \<and> (\<forall>i. classList (elems s i) = classList (elems st i))"
  then obtain s where s: "enhanceVideo video st = addRotationButton video (addCustomControls video s)"
    "nextId s = nextId st" "skeleton (elems s i) = skeleton (elems st i)"
    "classList (elems s i) = classList (elems st i)" by blast
  have "i < nextId s" using assms s(2) by simp
  from constructors_old(1,2) [OF this, of video] show ?thesis using s by simp
qed

lemma applyRotation_skeleton [simp]:
  "skeleton (elems (applyRotation video d st) i) = skeleton (elems st i)"
  "classList (elems (applyRotation video d st) i) = classList (elems st i)"
  "nextId (applyRotation video d st) = nextId st"
  "customControls (applyRotation video d st) = customControls st"
  "bodyId (applyRotation video d st) = bodyId st"
  by (simp_all add: applyRotation_def Let_def split: option.splits)

lemma parentElement_cong:
  "document st' = document st \<Longrightarrow> parentElement st' e = parentElement st e"
  by (simp add: parentElement_def parentChain_def)

lemma closeMenu_elems:
  "skeleton (elems (closeMenu ui st) i) = skeleton (elems st i)"
  "i \<noteq> ui_rotateMenu ui \<Longrightarrow> classList (elems (closeMenu ui st) i) = classList (elems st i)"
  "classList (elems (closeMenu ui st) (ui_rotateMenu ui)) =
     filter (\<lambda>d. d \<noteq> ''active'') (classList (elems st (ui_rotateMenu ui)))"
  "nextId (closeMenu ui st) = nextId st"
  "customControls (closeMenu ui st) = customControls st"
  by (simp_all add: closeMenu_def Let_def classList_ops_classes)

lemma closeMenu_document:
  "parentElement st (ui_rotateMenu ui) \<noteq> Some (bodyId st) \<Longrightarrow>
   document (closeMenu ui st) = document st"
proof -
  assume a: "parentElement st (ui_rotateMenu ui) \<noteq> Some (bodyId st)"
  have "parentElement (classList_remove (ui_rotateMenu ui) ''active'' st) (ui_rotateMenu ui)
          = parentElement st (ui_rotateMenu ui)"
    by (rule parentElement_cong) simp
  then show ?thesis
    using a by (simp add: closeMenu_def Let_def)
qed

text \<open>
  \<^verbatim>\<open>handleItemAction\<close> writes one of the two state maps, then applies the transform and
  closes the menu.
\<close>

lemma handleItemAction_shape:
  "\<exists>s1. handleItemAction ui video item st
           = closeMenu ui (applyRotation video (getRotation s1 video) s1)
       \<and> elems s1 = elems st \<and> document s1 = document st \<and> nextId s1 = nextId st
       \<and> customControls s1 = customControls st \<and> bodyId s1 = bodyId st
       \<and> processedVideos s1 = processedVideos st \<and> isEnabled s1 = isEnabled st
       \<and> pathname s1 = pathname st"
proof (cases "isFlip_in item")
  case True
  let ?s1 = "st\<lparr>flipStates := (flipStates st)(video \<mapsto> \<not> getFlip st video)\<rparr>"
  have "handleItemAction ui video item st
          = closeMenu ui (applyRotation video (getRotation ?s1 video) ?s1)"
    using True by (simp only: handleItemAction_def Let_def if_True)
  then show ?thesis by (intro exI [of _ ?s1]) simp
next
  case False
  define r where "r = js_rem (getRotation st video +
                         (case degrees_of item of None \<Rightarrow> 0 | Some d \<Rightarrow> d)) 360"
  let ?s1 = "st\<lparr>rotationStates := (rotationStates st)(video \<mapsto> if r < 0 then r + 360 else r)\<rparr>"
  have "handleItemAction ui video item st
          = closeMenu ui (applyRotation video (getRotation ?s1 video) ?s1)"
    using False by (simp only: handleItemAction_def Let_def if_False r_def)
  then show ?thesis by (intro exI [of _ ?s1]) simp
qed

lemma handleItemAction_frame:
  "skeleton (elems (handleItemAction ui video item st) i) = skeleton (elems st i)"
  "i \<noteq> ui_rotateMenu ui \<Longrightarrow>
     classList (elems (handleItemAction ui video item st) i) = classList (elems st i)"
  "classList (elems (handleItemAction ui video item st) (ui_rotateMenu ui)) =
     filter (\<lambda>d. d \<noteq> ''active'') (classList (elems st (ui_rotateMenu ui)))"
  "nextId (handleItemAction ui video item st) = nextId st"
  "customControls (handleItemAction ui video item st) = customControls st"
proof -
  obtain s1 where s: "handleItemAction ui video item st
           = closeMenu ui (applyRotation video (getRotation s1 video) s1)"
    "elems s1 = elems st" "nextId s1 = nextId st" "customControls s1 = customControls st"
    using handleItemAction_shape [of ui video item st] by blast
  show "skeleton (elems (handleItemAction ui video item st) i) = skeleton (elems st i)"
    by (simp add: s closeMenu_elems)
  show "i \<noteq> ui_rotateMenu ui \<Longrightarrow>
     classList (elems (handleItemAction ui video item st) i) = classList (elems st i)"
    by (simp add: s closeMenu_elems)
  show "classList (elems (handleItemAction ui video item st) (ui_rotateMenu ui)) =
     filter (\<lambda>d. d \<noteq> ''active'') (classList (elems st (ui_rotateMenu ui)))"
    by (simp add: s closeMenu_elems)
  show "nextId (handleItemAction ui video item st) = nextId st"
    by (simp add: s closeMenu_elems)
  show "customControls (handleItemAction ui video item st) = customControls st"
    by (simp add: s closeMenu_elems)
qed

lemma handleItemAction_document:
  assumes "parentElement st (ui_rotateMenu ui) \<noteq> Some (bodyId st)"
  shows "document (handleItemAction ui video item st) = document st"
proof -
  obtain s1 where s: "handleItemAction ui video item st
           = closeMenu ui (applyRotation video (getRotation s1 video) s1)"
    "document s1 = document st" "bodyId s1 = bodyId st"
    using handleItemAction_shape [of ui video item st] by blast
  let ?a = "applyRotation video (getRotation s1 video) s1"
  have "parentElement ?a (ui_rotateMenu ui) = parentElement st (ui_rotateMenu ui)"
    by (rule parentElement_cong) (simp add: s)
  then have "parentElement ?a (ui_rotateMenu ui) \<noteq> Some (bodyId ?a)"
    using assms by (simp add: s)
  from closeMenu_document [OF this] show ?thesis by (simp add: s)
qed

lemma removeBar_frame [simp]:
  "elems (removeBar video st) = elems st"
  "nextId (removeBar video st) = nextId st"
  "isEnabled (removeBar video st) = isEnabled st"
  "rotationStates (removeBar video st) = rotationStates st"
  "processedVideos (removeBar video st) = processedVideos st"
  "pathname (removeBar video st) = pathname st"
  "customControls (removeBar video st) video = None"
  by (simp_all add: removeBar_def Let_def split: option.splits)

lemma removeRotationUI_frame [simp]:
  "skeleton (elems (removeRotationUI video st) i) = skeleton (elems st i)"
  "nextId (removeRotationUI video st) = nextId st"
  "isEnabled (removeRotationUI video st) = isEnabled st"
  "rotationStates (removeRotationUI video st) = rotationStates st"
  "processedVideos (removeRotationUI video st) = processedVideos st"
  "pathname (removeRotationUI video st) = pathname st"
  "customControls (removeRotationUI video st) = customControls st"
  by (simp_all add: removeRotationUI_def Let_def split: option.splits)

lemma resetVideo_frame [simp]:
  "skeleton (elems (resetVideo video st) i) = skeleton (elems st i)"
  "nextId (resetVideo video st) = nextId st"
  "isEnabled (resetVideo video st) = isEnabled st"
  "rotationStates (resetVideo video st) = rotationStates st"
  "processedVideos (resetVideo video st) = processedVideos st - {video}"
  "pathname (resetVideo video st) = pathname st"
  "customControls (resetVideo video st) = customControls st"
  "document (resetVideo video st) = document st"
  by (simp_all add: resetVideo_def Let_def)

lemma removeControls_of_frame [simp]:
  "skeleton (elems (removeControls_of video st) i) = skeleton (elems st i)"
  "nextId (removeControls_of video st) = nextId st"
  "isEnabled (removeControls_of video st) = isEnabled st"
  "rotationStates (removeControls_of video st) = rotationStates st"
  "processedVideos (removeControls_of video st) = processedVideos st - {video}"
  "pathname (removeControls_of video st) = pathname st"
  by (simp_all add: removeControls_of_def)

lemma removeAllControls_frame [simp]:
  "skeleton (elems (removeAllControls st) i) = skeleton (elems st i)"
  "nextId (removeAllControls st) = nextId st"
  "isEnabled (removeAllControls st) = isEnabled st"
  "rotationStates (removeAllControls st) = rotationStates st"
  "pathname (removeAllControls st) = pathname st"
  unfolding removeAllControls_def by (rule foldl_frame, simp)+

lemma removeAllControls_processed:
  "processedVideos (removeAllControls st) = processedVideos st - set (querySelectorAll_video st)"
proof -
  have "processedVideos (foldl (\<lambda>s video. removeControls_of video s) s vs)
          = processedVideos s - set vs" for s vs
    by (induction vs arbitrary: s) auto
  then show ?thesis by (simp add: removeAllControls_def)
qed

subsection \<open>The reel page and the pages that look like it\<close>

lemma skeleton_eqD:
  "skeleton x = skeleton y \<Longrightarrow>
   tagName x = tagName y \<and> attributes x = attributes y
   \<and> clientWidth x = clientWidth y \<and> clientHeight x = clientHeight y"
  by (simp add: skeleton_def)

lemma below_four: "(i::nat) < 4 \<Longrightarrow> i \<in> {0, 1, 2, 3}"
  by auto

lemma reel_like_elems:
  assumes "reel_like st"
  shows "tagName (elems st 0) = ''HTML''" "tagName (elems st 1) = ''BODY''"
    "tagName (elems st (Suc 0)) = ''BODY''"
    "tagName (elems st 2) = ''DIV''" "tagName (elems st 3) = ''VIDEO''"
    "i < 4 \<Longrightarrow> attributes (elems st i) a = None"
    "clientWidth (elems st 2) = 400" "clientHeight (elems st 2) = 600"
proof -
  have s: "skeleton (elems st i) = skeleton (elems reel_page i)" if "i < 4" for i
    using assms that by (simp add: reel_like_def)
  show "tagName (elems st 0) = ''HTML''"
    using skeleton_eqD [OF s [of 0]] by (simp add: reel_page_def new_element_def)
  show "tagName (elems st 1) = ''BODY''"
    using skeleton_eqD [OF s [of 1]] by (simp add: reel_page_def new_element_def)
  show "tagName (elems st (Suc 0)) = ''BODY''"
    using skeleton_eqD [OF s [of 1]] by (simp add: reel_page_def new_element_def)
  show "tagName (elems st 2) = ''DIV''"
    using skeleton_eqD [OF s [of 2]] by (simp add: reel_page_def new_element_def)
  show "tagName (elems st 3) = ''VIDEO''"
    using skeleton_eqD [OF s [of 3]] by (simp add: reel_page_def new_element_def)
  show "i < 4 \<Longrightarrow> attributes (elems st i) a = None"
    using skeleton_eqD [OF s [of i]] by (simp add: reel_no_attributes)
  show "clientWidth (elems st 2) = 400"
    using skeleton_eqD [OF s [of 2]] by (simp add: reel_page_def new_element_def)
  show "clientHeight (elems st 2) = 600"
    using skeleton_eqD [OF s [of 2]] by (simp add: reel_page_def new_element_def)
qed

lemma reel_like_chain:
  assumes "reel_like st"
  shows "parentChain st 3 =
     [Node 2 [Node 3 []], Node 1 [Node 2 [Node 3 []]], Node 0 [Node 1 [Node 2 [Node 3 []]]]]"
  using assms by (simp add: parentChain_def reel_like_def)

text \<open>On such a page the one video is discovered, is not a story and resolves to the wrapper.\<close>

lemma reel_like_facts:
  assumes "reel_like st"
  shows "querySelectorAll_video st = [3]"
    and "\<not> isStoryVideo st 3"
    and "findVideoContainer st 3 = Some 2"
proof -
  note e = reel_like_elems [OF assms]
  have d: "document st = Node 0 [Node 1 [Node 2 [Node 3 []]]]"
    using assms by (simp add: reel_like_def)
  show "querySelectorAll_video st = [3]"
    by (simp add: querySelectorAll_video_def d e)
  have p: "\<not> startsWith (pathname st) ''/stories/''"
    using assms by (simp add: reel_like_def startsWith_def)
  have q: "\<not> sel_progressbar (elems st i)" "\<not> sel_button_label l (elems st i)"
    if "i < 4" for i l
    using e(6) [OF that] by (simp_all add: sel_progressbar_def sel_button_label_def)
  show "\<not> isStoryVideo st 3"
    by (simp add: isStoryVideo_def p reel_like_chain [OF assms] querySelector_in_def q)
  show "findVideoContainer st 3 = Some 2"
    by (simp add: findVideoContainer_def reel_like_chain [OF assms] e)
qed

lemma reel_like_reel_page: "reel_like reel_page"
  by (simp add: reel_like_def reel_page_def)

lemma reel_like_activate:
  assumes "reel_like st"
  shows "reel_like (classList_add 0 ''insta-control-active'' (st\<lparr>isEnabled := b\<rparr>))"
proof -
  have "skeleton (elems (classList_add 0 ''insta-control-active'' (st\<lparr>isEnabled := b\<rparr>)) i)
          = skeleton (elems st i)" for i
    by (simp add: skeleton_frame(2) [of 0 "''insta-control-active''" "st\<lparr>isEnabled := b\<rparr>" i])
  then show ?thesis using assms by (simp add: reel_like_def)
qed

subsection \<open>Start-up on the reel page\<close>

lemma enhanceVideo_unfold:
  assumes "isEnabled st" "video \<notin> processedVideos st" "\<not> isStoryVideo st video"
  shows "enhanceVideo video st
           = addRotationButton video (addCustomControls video (registered video st))"
  using assms by (simp add: enhanceVideo_def registered_def Let_def)

lemma registered_frame [simp]:
  "document (registered video st) = document st"
  "nextId (registered video st) = nextId st"
  "customControls (registered video st) = customControls st"
  "pathname (registered video st) = pathname st"
  "isEnabled (registered video st) = isEnabled st"
  "skeleton (elems (registered video st) i) = skeleton (elems st i)"
  "classList (elems (registered video st) i) = classList (elems st i)"
  by (simp_all add: registered_def)

lemma reel_like_registered: "reel_like st \<Longrightarrow> reel_like (registered video st)"
  by (simp add: reel_like_def)

lemma reel_active_facts:
  "reel_like reel_active" "isEnabled reel_active" "nextId reel_active = 4"
  "processedVideos reel_active = {}" "customControls reel_active = Map.empty"
  "classList (elems reel_active 3) = []" "flipStates reel_active = Map.empty"
proof -
  show "reel_like reel_active"
    unfolding reel_active_def by (rule reel_like_activate [OF reel_like_reel_page])
  show "isEnabled reel_active" "nextId reel_active = 4" "processedVideos reel_active = {}"
    "customControls reel_active = Map.empty" "flipStates reel_active = Map.empty"
    by (simp_all add: reel_active_def) (simp_all add: reel_page_def)
  show "classList (elems reel_active 3) = []"
    by (simp add: reel_active_def classList_ops_classes) (simp add: reel_page_def new_element_def)
qed

lemma reel_started_eq: "reel_started = observeVideoAdditions (enhanceVideo 3 reel_active)"
proof -
  have r: "nid (document reel_page) = 0"
    by (simp add: reel_page_def)
  have a: "classList_add (nid (document reel_page)) ''insta-control-active''
             (reel_page\<lparr>isEnabled := True\<rparr>) = reel_active"
    by (simp add: reel_active_def r)
  have v: "querySelectorAll_video reel_active = [3]"
    by (rule reel_like_facts(1) [OF reel_active_facts(1)])
  show ?thesis
    by (simp add: reel_started_def init_def Let_def a processExistingVideos_def v
          reel_active_facts(2))
qed

lemma reel_enhanced_eq:
  "enhanceVideo 3 reel_active
     = addRotationButton 3 (addCustomControls 3 (registered 3 reel_active))"
  by (rule enhanceVideo_unfold)
     (simp_all add: reel_active_facts reel_like_facts(2) [OF reel_active_facts(1)])

lemma reel_bar_attached:
  "document (addCustomControls 3 (registered 3 reel_active)) =
     Node 0 [Node 1 [Node 2
       [Node 3 [],
        Node 4 [Node 5 [], Node 6 [], Node 7 [Node 8 [Node 9 [Node 10 []]]],
                Node 11 [Node 12 [], Node 13 [Node 14 [Node 15 []]]], Node 16 []]]]]"
  "nextId (addCustomControls 3 (registered 3 reel_active)) = 17"
  "customControls (addCustomControls 3 (registered 3 reel_active)) 3 = Some 4"
  "findVideoContainer (addCustomControls 3 (registered 3 reel_active)) 3 = Some 2"
proof -
  let ?R = "registered 3 reel_active"
  let ?C = "addCustomControls 3 ?R"
  have rl: "reel_like ?R" by (rule reel_like_registered [OF reel_active_facts(1)])
  have c: "findVideoContainer ?R 3 = Some 2" by (rule reel_like_facts(3) [OF rl])
  have d: "document reel_active = Node 0 [Node 1 [Node 2 [Node 3 []]]]"
    using reel_active_facts(1) by (simp add: reel_like_def)
  have n: "nextId reel_active = 4" by (simp add: reel_active_facts)
  show doc: "document ?C =
     Node 0 [Node 1 [Node 2
       [Node 3 [],
        Node 4 [Node 5 [], Node 6 [], Node 7 [Node 8 [Node 9 [Node 10 []]]],
                Node 11 [Node 12 [], Node 13 [Node 14 [Node 15 []]]], Node 16 []]]]]"
    by (simp add: addCustomControls_effect(1) [OF c] d n bar_fragment_def bar_ui_at_def)
  show "nextId ?C = 17" by (simp add: addCustomControls_effect(2) [OF c] n)
  show "customControls ?C 3 = Some 4" by (simp add: addCustomControls_effect(3) [OF c] n)
  have e: "elems ?C 2 = elems ?R 2" by (rule addCustomControls_old [OF c]) (simp add: n)
  have ch: "parentChain ?C 3 =
      [Node 2 [Node 3 [],
        Node 4 [Node 5 [], Node 6 [], Node 7 [Node 8 [Node 9 [Node 10 []]]],
                Node 11 [Node 12 [], Node 13 [Node 14 [Node 15 []]]], Node 16 []]],
       Node 1 [Node 2 [Node 3 [],
        Node 4 [Node 5 [], Node 6 [], Node 7 [Node 8 [Node 9 [Node 10 []]]],
                Node 11 [Node 12 [], Node 13 [Node 14 [Node 15 []]]], Node 16 []]]],
       Node 0 [Node 1 [Node 2 [Node 3 [],
        Node 4 [Node 5 [], Node 6 [], Node 7 [Node 8 [Node 9 [Node 10 []]]],
                Node 11 [Node 12 [], Node 13 [Node 14 [Node 15 []]]], Node 16 []]]]]]"
    by (simp add: parentChain_def doc)
  show "findVideoContainer ?C 3 = Some 2"
    by (simp add: findVideoContainer_def ch e reel_like_elems [OF rl])
qed

subsection \<open>The reel page after its first enhancement\<close>

lemma reel_bar_tags:
  shows "tagName (elems (addCustomControls 3 (registered 3 reel_active)) 4) = ''DIV''"
    and "tagName (elems (addCustomControls 3 (registered 3 reel_active)) 5) = ''BUTTON''"
    and "tagName (elems (addCustomControls 3 (registered 3 reel_active)) 6) = ''DIV''"
    and "tagName (elems (addCustomControls 3 (registered 3 reel_active)) 7) = ''DIV''"
    and "tagName (elems (addCustomControls 3 (registered 3 reel_active)) 8) = ''DIV''"
    and "tagName (elems (addCustomControls 3 (registered 3 reel_active)) 9) = ''DIV''"
    and "tagName (elems (addCustomControls 3 (registered 3 reel_active)) 10) = ''DIV''"
    and "tagName (elems (addCustomControls 3 (registered 3 reel_active)) 11) = ''DIV''"
    and "tagName (elems (addCustomControls 3 (registered 3 reel_active)) 12) = ''BUTTON''"
    and "tagName (elems (addCustomControls 3 (registered 3 reel_active)) 13) = ''DIV''"
    and "tagName (elems (addCustomControls 3 (registered 3 reel_active)) 14) = ''DIV''"
    and "tagName (elems (addCustomControls 3 (registered 3 reel_active)) 15) = ''DIV''"
    and "tagName (elems (addCustomControls 3 (registered 3 reel_active)) 16) = ''BUTTON''"
proof -
  have c: "findVideoContainer (registered 3 reel_active) 3 = Some 2"
    by (rule reel_like_facts(3) [OF reel_like_registered [OF reel_active_facts(1)]])
  have n: "nextId (registered 3 reel_active) = 4" by (simp add: reel_active_facts)
  note t = addCustomControls_new [OF c, unfolded n]
  show
    "tagName (elems (addCustomControls 3 (registered 3 reel_active)) 4) = ''DIV''"
    and "tagName (elems (addCustomControls 3 (registered 3 reel_active)) 5) = ''BUTTON''"
    and "tagName (elems (addCustomControls 3 (registered 3 reel_active)) 6) = ''DIV''"
    and "tagName (elems (addCustomControls 3 (registered 3 reel_active)) 7) = ''DIV''"
    and "tagName (elems (addCustomControls 3 (registered 3 reel_active)) 8) = ''DIV''"
    and "tagName (elems (addCustomControls 3 (registered 3 reel_active)) 9) = ''DIV''"
    and "tagName (elems (addCustomControls 3 (registered 3 reel_active)) 10) = ''DIV''"
    and "tagName (elems (addCustomControls 3 (registered 3 reel_active)) 11) = ''DIV''"
    and "tagName (elems (addCustomControls 3 (registered 3 reel_active)) 12) = ''BUTTON''"
    and "tagName (elems (addCustomControls 3 (registered 3 reel_active)) 13) = ''DIV''"
    and "tagName (elems (addCustomControls 3 (registered 3 reel_active)) 14) = ''DIV''"
    and "tagName (elems (addCustomControls 3 (registered 3 reel_active)) 15) = ''DIV''"
    and "tagName (elems (addCustomControls 3 (registered 3 reel_active)) 16) = ''BUTTON''"
    using t by simp_all
qed

lemma reel_enhanced_facts:
  shows "document (enhanceVideo 3 reel_active) = enhanced_tree"
    and "nextId (enhanceVideo 3 reel_active) = 22"
    and "customControls (enhanceVideo 3 reel_active) 3 = Some 4"
    and "classList (elems (enhanceVideo 3 reel_active) 3) = []"
    and "classList (elems (enhanceVideo 3 reel_active) 17) = [''insta-control-rotate-btn'']"
    and "classList (elems (enhanceVideo 3 reel_active) 18) = [''insta-control-rotate-menu'']"
    and "i < 4 \<Longrightarrow>
           skeleton (elems (enhanceVideo 3 reel_active) i) = skeleton (elems reel_page i)"
    and "isEnabled (enhanceVideo 3 reel_active)"
    and "pathname (enhanceVideo 3 reel_active) = ''/reel/abc/''"
    and "processedVideos (enhanceVideo 3 reel_active) = {3}"
    and "rotationStates (enhanceVideo 3 reel_active) 3 = Some 0"
    and "flipStates (enhanceVideo 3 reel_active) = Map.empty"
proof -
  let ?C = "addCustomControls 3 (registered 3 reel_active)"
  let ?D = "addRotationButton 3 ?C"
  note b = reel_bar_attached
  have rl: "reel_like reel_active" by (rule reel_active_facts(1))
  show "document (enhanceVideo 3 reel_active) = enhanced_tree"
    by (simp add: reel_enhanced_eq addRotationButton_effect(1) [OF b(4)] b(1,2)
          enhanced_tree_def)
  show "nextId (enhanceVideo 3 reel_active) = 22"
    by (simp add: reel_enhanced_eq addRotationButton_effect(2) [OF b(4)] b(2))
  show "customControls (enhanceVideo 3 reel_active) 3 = Some 4"
    by (simp add: reel_enhanced_eq addRotationButton_effect(3) [OF b(4)] b(3))
  have old: "classList (elems (enhanceVideo 3 reel_active) i) = classList (elems reel_active i)
      \<and> skeleton (elems (enhanceVideo 3 reel_active) i) = skeleton (elems reel_active i)"
    if "i < 4" for i
    using enhanceVideo_old [of i reel_active 3] that by (simp add: reel_active_facts)
  show "classList (elems (enhanceVideo 3 reel_active) 3) = []"
    using old [of 3] by (simp add: reel_active_facts)
  show "i < 4 \<Longrightarrow>
           skeleton (elems (enhanceVideo 3 reel_active) i) = skeleton (elems reel_page i)"
    using old [of i] rl by (simp add: reel_like_def)
  have new: "classList (elems ?D 17) = [''insta-control-rotate-btn'']"
    "classList (elems ?D 18) = [''insta-control-rotate-menu'']"
    using addRotationButton_new(1,2) [OF b(4)] by (simp_all add: b(2))
  show "classList (elems (enhanceVideo 3 reel_active) 17) = [''insta-control-rotate-btn'']"
    "classList (elems (enhanceVideo 3 reel_active) 18) = [''insta-control-rotate-menu'']"
    by (simp_all add: reel_enhanced_eq new)
  show "isEnabled (enhanceVideo 3 reel_active)" by (simp add: reel_active_facts)
  show "pathname (enhanceVideo 3 reel_active) = ''/reel/abc/''"
    using rl by (simp add: reel_like_def)
  have q: "\<not> isStoryVideo reel_active 3" by (rule reel_like_facts(2) [OF rl])
  show "processedVideos (enhanceVideo 3 reel_active) = {3}"
    using q by (simp add: enhanceVideo_def Let_def reel_active_facts)
  show "rotationStates (enhanceVideo 3 reel_active) 3 = Some 0"
    by (rule enhanceVideo_registers(2)) (simp_all add: reel_active_facts q)
  show "flipStates (enhanceVideo 3 reel_active) = Map.empty"
    by (simp add: reel_active_facts)
qed

lemma reel_enhanced_tags:
  shows "tagName (elems (enhanceVideo 3 reel_active) 0) = ''HTML''"
    and "tagName (elems (enhanceVideo 3 reel_active) 1) = ''BODY''"
    and "tagName (elems (enhanceVideo 3 reel_active) (Suc 0)) = ''BODY''"
    and "tagName (elems (enhanceVideo 3 reel_active) 2) = ''DIV''"
    and "tagName (elems (enhanceVideo 3 reel_active) 3) = ''VIDEO''"
    and "tagName (elems (enhanceVideo 3 reel_active) 4) = ''DIV''"
    and "tagName (elems (enhanceVideo 3 reel_active) 5) = ''BUTTON''"
    and "tagName (elems (enhanceVideo 3 reel_active) 6) = ''DIV''"
    and "tagName (elems (enhanceVideo 3 reel_active) 7) = ''DIV''"
    and "tagName (elems (enhanceVideo 3 reel_active) 8) = ''DIV''"
    and "tagName (elems (enhanceVideo 3 reel_active) 9) = ''DIV''"
    and "tagName (elems (enhanceVideo 3 reel_active) 10) = ''DIV''"
    and "tagName (elems (enhanceVideo 3 reel_active) 11) = ''DIV''"
    and "tagName (elems (enhanceVideo 3 reel_active) 12) = ''BUTTON''"
    and "tagName (elems (enhanceVideo 3 reel_active) 13) = ''DIV''"
    and "tagName (elems (enhanceVideo 3 reel_active) 14) = ''DIV''"
    and "tagName (elems (enhanceVideo 3 reel_active) 15) = ''DIV''"
    and "tagName (elems (enhanceVideo 3 reel_active) 16) = ''BUTTON''"
    and "tagName (elems (enhanceVideo 3 reel_active) 17) = ''BUTTON''"
    and "tagName (elems (enhanceVideo 3 reel_active) 18) = ''DIV''"
    and "tagName (elems (enhanceVideo 3 reel_active) 19) = ''BUTTON''"
    and "tagName (elems (enhanceVideo 3 reel_active) 20) = ''BUTTON''"
    and "tagName (elems (enhanceVideo 3 reel_active) 21) = ''BUTTON''"
proof -
  let ?C = "addCustomControls 3 (registered 3 reel_active)"
  note b = reel_bar_attached
  have c: "findVideoContainer (registered 3 reel_active) 3 = Some 2"
    by (rule reel_like_facts(3) [OF reel_like_registered [OF reel_active_facts(1)]])
  have o: "tagName (elems ?C i) = tagName (elems reel_page i)" if "i < 4" for i
  proof -
    have "elems ?C i = elems (registered 3 reel_active) i"
      by (rule addCustomControls_old [OF c]) (simp add: reel_active_facts that)
    moreover have "skeleton (elems reel_active i) = skeleton (elems reel_page i)"
      using reel_active_facts(1) that by (simp add: reel_like_def)
    ultimately show ?thesis
      using skeleton_eqD [of "elems (registered 3 reel_active) i" "elems reel_page i"] by simp
  qed
  have m: "tagName (elems (addRotationButton 3 ?C) i) = tagName (elems ?C i)" if "i < 17" for i
  proof -
    have "i < nextId ?C" using that by (simp add: b(2))
    from skeleton_eqD [OF addRotationButton_old_any(1) [OF this, of 3]] show ?thesis by simp
  qed
  note n = addRotationButton_new(3-7) [OF b(4), unfolded b(2)]
  show
    "tagName (elems (enhanceVideo 3 reel_active) 0) = ''HTML''"
    and "tagName (elems (enhanceVideo 3 reel_active) 1) = ''BODY''"
    and "tagName (elems (enhanceVideo 3 reel_active) (Suc 0)) = ''BODY''"
    and "tagName (elems (enhanceVideo 3 reel_active) 2) = ''DIV''"
    and "tagName (elems (enhanceVideo 3 reel_active) 3) = ''VIDEO''"
    and "tagName (elems (enhanceVideo 3 reel_active) 4) = ''DIV''"
    and "tagName (elems (enhanceVideo 3 reel_active) 5) = ''BUTTON''"
    and "tagName (elems (enhanceVideo 3 reel_active) 6) = ''DIV''"
    and "tagName (elems (enhanceVideo 3 reel_active) 7) = ''DIV''"
    and "tagName (elems (enhanceVideo 3 reel_active) 8) = ''DIV''"
    and "tagName (elems (enhanceVideo 3 reel_active) 9) = ''DIV''"
    and "tagName (elems (enhanceVideo 3 reel_active) 10) = ''DIV''"
    and "tagName (elems (enhanceVideo 3 reel_active) 11) = ''DIV''"
    and "tagName (elems (enhanceVideo 3 reel_active) 12) = ''BUTTON''"
    and "tagName (elems (enhanceVideo 3 reel_active) 13) = ''DIV''"
    and "tagName (elems (enhanceVideo 3 reel_active) 14) = ''DIV''"
    and "tagName (elems (enhanceVideo 3 reel_active) 15) = ''DIV''"
    and "tagName (elems (enhanceVideo 3 reel_active) 16) = ''BUTTON''"
    and "tagName (elems (enhanceVideo 3 reel_active) 17) = ''BUTTON''"
    and "tagName (elems (enhanceVideo 3 reel_active) 18) = ''DIV''"
    and "tagName (elems (enhanceVideo 3 reel_active) 19) = ''BUTTON''"
    and "tagName (elems (enhanceVideo 3 reel_active) 20) = ''BUTTON''"
    and "tagName (elems (enhanceVideo 3 reel_active) 21) = ''BUTTON''"
    using n
    by (simp_all add: o reel_enhanced_eq m reel_bar_tags)
       (simp_all add: reel_page_def new_element_def)
qed

subsection \<open>More of what the operations leave alone\<close>

lemma observeVideoAdditions_frame [simp]:
  "document (observeVideoAdditions st) = document st"
  "elems (observeVideoAdditions st) = elems st"
  "nextId (observeVideoAdditions st) = nextId st"
  "bodyId (observeVideoAdditions st) = bodyId st"
  "customControls (observeVideoAdditions st) = customControls st"
  "isEnabled (observeVideoAdditions st) = isEnabled st"
  "pathname (observeVideoAdditions st) = pathname st"
  "processedVideos (observeVideoAdditions st) = processedVideos st"
  "rotationStates (observeVideoAdditions st) = rotationStates st"
  "flipStates (observeVideoAdditions st) = flipStates st"
  by (simp_all add: observeVideoAdditions_def)

lemma enhanceVideo_bodyId [simp]: "bodyId (enhanceVideo video st) = bodyId st"
proof -
  have "bodyId (addCustomControls video s) = bodyId s" for s
    by (simp add: addCustomControls_def updateVolumeUI_def elem_ops Let_def split: option.splits)
  moreover have "bodyId (addRotationButton video s) = bodyId s" for s
    by (simp add: addRotationButton_def rotation_ui_at_def elem_ops Let_def split: option.splits)
  ultimately show ?thesis by (simp add: enhanceVideo_def Let_def)
qed

lemma handleItemAction_controller:
  "processedVideos (handleItemAction ui video item st) = processedVideos st"
  "isEnabled (handleItemAction ui video item st) = isEnabled st"
  "bodyId (handleItemAction ui video item st) = bodyId st"
  "pathname (handleItemAction ui video item st) = pathname st"
proof -
  obtain s1 where s: "handleItemAction ui video item st
           = closeMenu ui (applyRotation video (getRotation s1 video) s1)"
    "bodyId s1 = bodyId st" "processedVideos s1 = processedVideos st"
    "isEnabled s1 = isEnabled st" "pathname s1 = pathname st"
    using handleItemAction_shape [of ui video item st] by blast
  have p: "pathname (applyRotation video d s) = pathname s" for d s
    by (simp add: applyRotation_def Let_def split: option.splits)
  have q: "pathname (closeMenu ui s) = pathname s" "bodyId (closeMenu ui s) = bodyId s" for s
    by (simp_all add: closeMenu_def Let_def)
  show "processedVideos (handleItemAction ui video item st) = processedVideos st"
    by (simp add: s)
  show "isEnabled (handleItemAction ui video item st) = isEnabled st"
    by (simp add: s)
  show "pathname (handleItemAction ui video item st) = pathname st"
    by (simp add: s p q)
  show "bodyId (handleItemAction ui video item st) = bodyId st"
    by (simp add: s q)
qed

lemma handleItemAction_rotation_flip:
  "rotationStates (handleItemAction ui video FlipHorizontally st) = rotationStates st"
  by (simp add: handleItemAction_def Let_def)

text \<open>Of the inline styles of existing elements, enhancement writes \<^verbatim>\<open>position\<close> only.\<close>

lemma enhanceVideo_old_style:
  assumes "i < nextId st" "p \<noteq> ''position''"
  shows "getStyle (enhanceVideo video st) i p = getStyle st i p"
proof -
  have arb: "style (elems (addRotationButton video s) i) p = style (elems s i) p"
    if "i < nextId s" for s
  proof (cases "findVideoContainer s video")
    case None
    then show ?thesis by (simp add: addRotationButton_def)
  next
    case (Some c)
    show ?thesis
    proof (cases "i = c")
      case True
      then show ?thesis
        using addRotationButton_container [OF Some] that assms(2) by simp
    next
      case False
      then show ?thesis using addRotationButton_old [OF Some that] by simp
    qed
  qed
  have both: "style (elems (addRotationButton video (addCustomControls video s)) i) p
                = style (elems s i) p" if "i < nextId s" for s
  proof -
    have "i < nextId (addCustomControls video s)"
      using that addCustomControls_nextId [of s video] by linarith
    from arb [OF this] addCustomControls_old_any [OF that] show ?thesis by simp
  qed
  show ?thesis
  proof (cases "isEnabled st \<and> video \<notin> processedVideos st \<and> \<not> isStoryVideo st video")
    case True
    have "i < nextId (registered video st)" using assms(1) by simp
    from both [OF this] have
      "style (elems (enhanceVideo video st) i) p = style (elems (registered video st) i) p"
      using True by (simp add: enhanceVideo_unfold)
    then show ?thesis by (simp add: getStyle_def registered_def)
  next
    case False
    then have "enhanceVideo video st = st" by (auto simp: enhanceVideo_def)
    then show ?thesis by simp
  qed
qed

text \<open>What the teardown of one video leaves on that video.\<close>

lemma getStyle_frame [simp]:
  "getStyle (update_elem e (controls_update g) st) i p = getStyle st i p"
  "getStyle (st\<lparr>processedVideos := pv\<rparr>) i p = getStyle st i p"
  "getStyle (st\<lparr>isEnabled := b\<rparr>) i p = getStyle st i p"
  "getStyle (classList_add e c st) i p = getStyle st i p"
  "getStyle (observeVideoAdditions st) i p = getStyle st i p"
  by (simp_all add: getStyle_def classList_add_def)

lemma resetVideo_video:
  "controls (elems (resetVideo video st) video)"
  "p \<in> {''transform'', ''width'', ''height'', ''marginTop'', ''marginLeft''} \<Longrightarrow>
     getStyle (resetVideo video st) video p = Unset"
  by (auto simp: resetVideo_def Let_def)

lemma removeControls_of_video:
  "controls (elems (removeControls_of video st) video)"
  "customControls (removeControls_of video st) video = None"
  "p \<in> {''transform'', ''width'', ''height'', ''marginTop'', ''marginLeft''} \<Longrightarrow>
     getStyle (removeControls_of video st) video p = Unset"
  by (simp_all add: removeControls_of_def resetVideo_video)

lemma resolver_cong:
  assumes "document st' = document st" "elems st' = elems st"
  shows "findVideoContainer st' v = findVideoContainer st v"
    and "querySelector st' c sel = querySelector st c sel"
    and "parentElement st' e = parentElement st e"
proof -
  show "findVideoContainer st' v = findVideoContainer st v"
    by (rule findVideoContainer_cong) (simp_all add: assms)
  have "querySelector_in st' t sel = querySelector_in st t sel" for t
    by (simp add: querySelector_in_def assms)
  then show "querySelector st' c sel = querySelector st c sel"
    by (simp add: querySelector_def assms split: option.splits)
  show "parentElement st' e = parentElement st e"
    by (rule parentElement_cong) (simp add: assms)
qed

text \<open>
  The tree after the teardown of one video, when its bar is attached and the container
  holds a rotation button and a rotation menu.
\<close>

lemma removeBar_document:
  assumes "customControls st v = Some bar" "parentElement st bar \<noteq> None"
  shows "document (removeBar v st) = remove_node bar (document st)"
  using assms by (simp add: removeBar_def Let_def)

lemma removeRotationUI_document:
  assumes "findVideoContainer st v = Some c"
    and "querySelector st c (sel_class ''insta-control-rotate-btn'') = Some rb"
    and "querySelector (removeChild rb st) c (sel_class ''insta-control-rotate-menu'') = Some rm"
  shows "document (removeRotationUI v st) = remove_node rm (remove_node rb (document st))"
  using assms by (simp add: removeRotationUI_def Let_def)

subsection \<open>The flip, the teardown and the second enhancement on the reel page\<close>

lemma enhanced_tree_parents:
  "ancestors_of enhanced_tree 3 \<noteq> None"
  "map nid (the (ancestors_of enhanced_tree 4)) = [2, 1, 0]"
  "map nid (the (ancestors_of enhanced_tree 18)) = [2, 1, 0]"
  by (simp_all add: enhanced_tree_def)

lemma reel_started_facts:
  "document reel_started = enhanced_tree" "bodyId reel_started = 1"
  "isEnabled reel_started" "flipStates reel_started 3 = None"
proof -
  show "document reel_started = enhanced_tree"
    by (simp add: reel_started_eq reel_enhanced_facts(1))
  show "bodyId reel_started = 1"
    by (simp add: reel_started_eq reel_active_def) (simp add: reel_page_def)
  show "isEnabled reel_started"
    by (simp add: reel_started_eq reel_active_facts)
  show "flipStates reel_started 3 = None"
    by (simp add: reel_started_eq reel_active_facts)
qed

lemma reel_flipped_facts:
  shows "document reel_flipped = enhanced_tree"
    and "skeleton (elems reel_flipped i) = skeleton (elems (enhanceVideo 3 reel_active) i)"
    and "classList (elems reel_flipped 3) = []"
    and "classList (elems reel_flipped 17) = [''insta-control-rotate-btn'']"
    and "classList (elems reel_flipped 18) = [''insta-control-rotate-menu'']"
    and "customControls reel_flipped 3 = Some 4"
    and "nextId reel_flipped = 22"
    and "isEnabled reel_flipped"
    and "pathname reel_flipped = ''/reel/abc/''"
    and "processedVideos reel_flipped = {3}"
    and "rotationStates reel_flipped 3 = Some 0"
    and "flipStates reel_flipped 3 = Some True"
proof -
  let ?ui = "rotation_ui_at 2 17"
  have m: "ui_rotateMenu ?ui = 18" by (simp add: rotation_ui_at_def)
  have "parentElement reel_started 18 = Some 2"
    using enhanced_tree_parents(3)
    by (simp add: parentElement_def parentChain_def reel_started_facts(1) enhanced_tree_def)
  then have p: "parentElement reel_started (ui_rotateMenu ?ui) \<noteq> Some (bodyId reel_started)"
    by (simp add: m reel_started_facts(2))
  show "document reel_flipped = enhanced_tree"
    unfolding reel_flipped_def reel_started_def [symmetric]
    by (simp add: handleItemAction_document [OF p] reel_started_facts(1))
  show "skeleton (elems reel_flipped i) = skeleton (elems (enhanceVideo 3 reel_active) i)"
    unfolding reel_flipped_def reel_started_def [symmetric]
    by (simp add: handleItemAction_frame(1) reel_started_eq)
  show "classList (elems reel_flipped 3) = []"
    "classList (elems reel_flipped 17) = [''insta-control-rotate-btn'']"
    unfolding reel_flipped_def reel_started_def [symmetric]
    by (simp_all add: handleItemAction_frame(2) m reel_started_eq reel_enhanced_facts)
  show "classList (elems reel_flipped 18) = [''insta-control-rotate-menu'']"
    unfolding reel_flipped_def reel_started_def [symmetric]
    using handleItemAction_frame(3) [of ?ui 3 FlipHorizontally reel_started]
    by (simp add: m reel_started_eq reel_enhanced_facts)
  show "customControls reel_flipped 3 = Some 4" "nextId reel_flipped = 22"
    unfolding reel_flipped_def reel_started_def [symmetric]
    by (simp_all add: handleItemAction_frame(4,5) reel_started_eq reel_enhanced_facts)
  show "isEnabled reel_flipped" "pathname reel_flipped = ''/reel/abc/''"
    "processedVideos reel_flipped = {3}"
    unfolding reel_flipped_def reel_started_def [symmetric]
    using reel_active_facts(1)
    by (simp_all add: handleItemAction_controller reel_started_eq reel_enhanced_facts
          reel_active_facts reel_like_def)
  show "rotationStates reel_flipped 3 = Some 0"
    unfolding reel_flipped_def reel_started_def [symmetric]
    by (simp add: handleItemAction_rotation_flip reel_started_eq reel_enhanced_facts)
  show "flipStates reel_flipped 3 = Some True"
    unfolding reel_flipped_def reel_started_def [symmetric]
    by (simp add: handleItemAction_flip getFlip_def reel_started_facts(4))
qed

lemma reel_halted_facts:
  shows "document reel_halted = enhanced_tree"
    and "elems reel_halted = elems (classList_remove 0 ''insta-control-active'' reel_flipped)"
    and "skeleton (elems reel_halted i) = skeleton (elems (enhanceVideo 3 reel_active) i)"
    and "classList (elems reel_halted 3) = []"
    and "classList (elems reel_halted 17) = [''insta-control-rotate-btn'']"
    and "classList (elems reel_halted 18) = [''insta-control-rotate-menu'']"
    and "customControls reel_halted 3 = Some 4"
    and "nextId reel_halted = 22"
    and "\<not> isEnabled reel_halted"
    and "pathname reel_halted = ''/reel/abc/''"
    and "processedVideos reel_halted = {3}"
    and "rotationStates reel_halted 3 = Some 0"
    and "flipStates reel_halted 3 = Some True"
  by (simp_all add: reel_halted_def reel_flipped_facts classList_ops_classes)
     (simp_all add: classList_remove_def)

lemma reel_halted_tags:
  "tagName (elems reel_halted i) = tagName (elems (enhanceVideo 3 reel_active) i)"
  using skeleton_eqD [OF reel_halted_facts(3) [of i]] by simp

lemma reel_halted_videos: "querySelectorAll_video reel_halted = [3]"
  by (simp add: querySelectorAll_video_def reel_halted_facts(1) enhanced_tree_def
        reel_halted_tags reel_enhanced_tags)

lemma reel_disabled_eq: "reel_disabled = removeControls_of 3 reel_halted"
proof -
  have r: "nid (document reel_flipped) = 0"
    by (simp add: reel_flipped_facts(1) enhanced_tree_def)
  show ?thesis
    by (simp add: reel_disabled_def onStorageChanged_def Let_def reel_flipped_facts(8) r
          reel_halted_def [symmetric] removeAllControls_def reel_halted_videos)
qed

lemma reel_bar_removed:
  shows "document (removeBar 3 reel_halted) =
           Node 0 [Node 1 [Node 2 [Node 3 [], Node 17 [],
                                   Node 18 [Node 19 [], Node 20 [], Node 21 []]]]]"
    and "elems (removeBar 3 reel_halted) = elems reel_halted"
    and "findVideoContainer (removeBar 3 reel_halted) 3 = Some 2"
proof -
  have "parentElement reel_halted 4 = Some 2"
    using enhanced_tree_parents(2)
    by (simp add: parentElement_def parentChain_def reel_halted_facts(1) enhanced_tree_def)
  then have p: "parentElement reel_halted 4 \<noteq> None" by simp
  show d: "document (removeBar 3 reel_halted) =
           Node 0 [Node 1 [Node 2 [Node 3 [], Node 17 [],
                                   Node 18 [Node 19 [], Node 20 [], Node 21 []]]]]"
    by (simp add: removeBar_document [OF reel_halted_facts(7) p] reel_halted_facts(1)
          enhanced_tree_def)
  show "elems (removeBar 3 reel_halted) = elems reel_halted" by simp
  have s: "skeleton (elems reel_halted 2) = skeleton (elems reel_page 2)"
    by (simp add: reel_halted_facts(3) reel_enhanced_facts(7))
  have z: "clientWidth (elems reel_halted 2) = 400" "clientHeight (elems reel_halted 2) = 600"
    using skeleton_eqD [OF s] by (simp_all add: reel_page_def new_element_def)
  show "findVideoContainer (removeBar 3 reel_halted) 3 = Some 2"
    by (simp add: findVideoContainer_def parentChain_def d z)
qed

lemma reel_rotation_ui_found:
  shows "querySelector (removeBar 3 reel_halted) 2 (sel_class ''insta-control-rotate-btn'')
           = Some 17"
    and "querySelector (removeChild 17 (removeBar 3 reel_halted)) 2
           (sel_class ''insta-control-rotate-menu'') = Some 18"
  by (simp_all add: querySelector_def querySelector_in_def reel_bar_removed(1) sel_class_def
        reel_halted_facts(4,5,6))

lemma reel_disabled_facts:
  shows "document reel_disabled = reel_tree"
    and "controls (elems reel_disabled 3)"
    and "customControls reel_disabled 3 = None"
    and "getStyle reel_disabled 3 ''transform'' = Unset"
    and "processedVideos reel_disabled = {}"
    and "\<not> isEnabled reel_disabled"
    and "nextId reel_disabled = 22"
    and "rotationStates reel_disabled 3 = Some 0"
    and "flipStates reel_disabled 3 = Some True"
    and "reel_like reel_disabled"
proof -
  show d: "document reel_disabled = reel_tree"
    by (simp add: reel_disabled_eq removeControls_of_def
          removeRotationUI_document [OF reel_bar_removed(3) reel_rotation_ui_found]
          reel_bar_removed(1) reel_tree_def)
  show "controls (elems reel_disabled 3)" "customControls reel_disabled 3 = None"
    "getStyle reel_disabled 3 ''transform'' = Unset"
    by (simp_all add: reel_disabled_eq removeControls_of_video)
  show "processedVideos reel_disabled = {}" "\<not> isEnabled reel_disabled"
    "nextId reel_disabled = 22" "rotationStates reel_disabled 3 = Some 0"
    "flipStates reel_disabled 3 = Some True"
    by (simp_all add: reel_disabled_eq reel_halted_facts)
  have "skeleton (elems reel_disabled i) = skeleton (elems reel_page i)" if "i < 4" for i
    using that by (simp add: reel_disabled_eq reel_halted_facts(3) reel_enhanced_facts(7))
  then show "reel_like reel_disabled"
    using d by (simp add: reel_like_def reel_tree_def reel_disabled_eq reel_halted_facts(10))
qed

lemma reel_reenabled_eq:
  "reel_reenabled =
     observeVideoAdditions
       (enhanceVideo 3
          (classList_add 0 ''insta-control-active'' (reel_disabled\<lparr>isEnabled := True\<rparr>)))"
proof -
  let ?A = "classList_add 0 ''insta-control-active'' (reel_disabled\<lparr>isEnabled := True\<rparr>)"
  have r: "nid (document reel_disabled) = 0"
    by (simp add: reel_disabled_facts(1) reel_tree_def)
  have "reel_like ?A" by (rule reel_like_activate [OF reel_disabled_facts(10)])
  then have v: "querySelectorAll_video ?A = [3]" by (rule reel_like_facts(1))
  show ?thesis
    unfolding reel_reenabled_def reel_disabled_def [symmetric]
    by (simp add: onStorageChanged_def Let_def reel_disabled_facts(6) r
          processExistingVideos_def v)
qed

text \<open>
  Claim C2 on the reel page. Disabling removes the bar, the button and the menu, leaves the
  tree of the host page and turns the native controls back on; enabling again registers the
  video with angle 0. The flip state is not reset: the map still holds \<open>True\<close> while the
  inline transform is empty.
\<close>

theorem reenable_keeps_flip:
  "flipStates reel_flipped 3 = Some True
   \<and> document reel_flipped = enhanced_tree
   \<and> document reel_disabled = reel_tree
   \<and> controls (elems reel_disabled 3)
   \<and> 3 \<notin> processedVideos reel_disabled
   \<and> 3 \<in> processedVideos reel_reenabled
   \<and> rotationStates reel_reenabled 3 = Some 0
   \<and> getStyle reel_reenabled 3 ''transform'' = Unset
   \<and> flipStates reel_reenabled 3 = Some True
   \<and> getFlip reel_reenabled 3"
proof -
  let ?A = "classList_add 0 ''insta-control-active'' (reel_disabled\<lparr>isEnabled := True\<rparr>)"
  have rl: "reel_like ?A" by (rule reel_like_activate [OF reel_disabled_facts(10)])
  have a: "isEnabled ?A" "3 \<notin> processedVideos ?A" "\<not> isStoryVideo ?A 3" "3 < nextId ?A"
    by (simp_all add: reel_disabled_facts reel_like_facts(2) [OF rl])
  have p: "3 \<in> processedVideos reel_reenabled"
    by (simp add: reel_reenabled_eq enhanceVideo_registers(1) [OF a(1,2,3)])
  have r: "rotationStates reel_reenabled 3 = Some 0"
    by (simp add: reel_reenabled_eq enhanceVideo_registers(2) [OF a(1,2,3)])
  have t: "getStyle reel_reenabled 3 ''transform'' = Unset"
    by (simp add: reel_reenabled_eq enhanceVideo_old_style [OF a(4)] reel_disabled_facts(4))
  have f: "flipStates reel_reenabled 3 = Some True"
    by (simp add: reel_reenabled_def onStorageChanged_flip reel_flipped_facts(12))
  show ?thesis
    using p r t f reel_disabled_facts reel_flipped_facts(1,12) by (simp add: getFlip_def)
qed

subsection \<open>Disabling while the rotation menu is open\<close>

lemma classList_ops_window [simp]:
  "innerWidth (classList_add e c st) = innerWidth st"
  "innerHeight (classList_add e c st) = innerHeight st"
  "innerWidth (classList_remove e c st) = innerWidth st"
  "innerHeight (classList_remove e c st) = innerHeight st"
  by (simp_all add: classList_add_def classList_remove_def)

lemma toggleMenu_open:
  assumes "''active'' \<notin> set (classList (elems st (ui_rotateMenu ui)))"
  shows "toggleMenu ui btnBottom btnRight st =
           setStyle (ui_rotateMenu ui) ''left'' (Text ''auto'')
             (setStyle (ui_rotateMenu ui) ''right'' (Px (innerWidth st - btnRight))
               (setStyle (ui_rotateMenu ui) ''top'' (Px (btnBottom + 5))
                 (setStyle (ui_rotateMenu ui) ''position'' (Text ''fixed'')
                   (appendChild (bodyId st)
                      (menu_fragment (classList_add (ui_rotateMenu ui) ''active'' st) ui)
                      (classList_add (ui_rotateMenu ui) ''active'' st)))))"
  using assms by (simp add: toggleMenu_def Let_def)

lemma removeRotationUI_document_no_menu:
  assumes "findVideoContainer st v = Some c"
    and "querySelector st c (sel_class ''insta-control-rotate-btn'') = Some rb"
    and "querySelector (removeChild rb st) c (sel_class ''insta-control-rotate-menu'') = None"
  shows "document (removeRotationUI v st) = remove_node rb (document st)"
  using assms by (simp add: removeRotationUI_def Let_def)

lemma reel_menu_open_facts:
  shows "document reel_menu_open =
           Node 0 [Node 1 [Node 2
             [Node 3 [],
              Node 4 [Node 5 [], Node 6 [], Node 7 [Node 8 [Node 9 [Node 10 []]]],
                      Node 11 [Node 12 [], Node 13 [Node 14 [Node 15 []]]], Node 16 []],
              Node 17 []],
             Node 18 [Node 19 [], Node 20 [], Node 21 []]]]"
    and "skeleton (elems reel_menu_open i) = skeleton (elems (enhanceVideo 3 reel_active) i)"
    and "classList (elems reel_menu_open 3) = []"
    and "classList (elems reel_menu_open 17) = [''insta-control-rotate-btn'']"
    and "classList (elems reel_menu_open 18) = [''insta-control-rotate-menu'', ''active'']"
    and "customControls reel_menu_open 3 = Some 4"
    and "isEnabled reel_menu_open"
proof -
  let ?ui = "rotation_ui_at 2 17"
  have m: "ui_rotateMenu ?ui = 18" by (simp add: rotation_ui_at_def)
  have c: "classList (elems reel_started 18) = [''insta-control-rotate-menu'']"
    "classList (elems reel_started 17) = [''insta-control-rotate-btn'']"
    "classList (elems reel_started 3) = []"
    by (simp_all add: reel_started_eq reel_enhanced_facts)
  have a: "''active'' \<notin> set (classList (elems reel_started (ui_rotateMenu ?ui)))"
    by (simp add: m c)
  note t = toggleMenu_open [OF a, of 40 390, unfolded m]
  have f: "menu_fragment (classList_add 18 ''active'' reel_started) ?ui
             = Node 18 [Node 19 [], Node 20 [], Node 21 []]"
    by (simp add: menu_fragment_def m reel_started_facts(1) enhanced_tree_def)
  show "document reel_menu_open =
           Node 0 [Node 1 [Node 2
             [Node 3 [],
              Node 4 [Node 5 [], Node 6 [], Node 7 [Node 8 [Node 9 [Node 10 []]]],
                      Node 11 [Node 12 [], Node 13 [Node 14 [Node 15 []]]], Node 16 []],
              Node 17 []],
             Node 18 [Node 19 [], Node 20 [], Node 21 []]]]"
    by (simp add: reel_menu_open_def t f reel_started_facts(1,2) enhanced_tree_def)
  show "skeleton (elems reel_menu_open i) = skeleton (elems (enhanceVideo 3 reel_active) i)"
    unfolding reel_menu_open_def t by (simp add: reel_started_eq)
  show "classList (elems reel_menu_open 3) = []"
    "classList (elems reel_menu_open 17) = [''insta-control-rotate-btn'']"
    "classList (elems reel_menu_open 18) = [''insta-control-rotate-menu'', ''active'']"
    by (simp_all add: reel_menu_open_def t classList_ops_classes c)
  show "customControls reel_menu_open 3 = Some 4" "isEnabled reel_menu_open"
    unfolding reel_menu_open_def t
    by (simp_all add: reel_started_eq reel_enhanced_facts reel_active_facts(2))
qed

lemma reel_menu_halted_facts:
  shows "document reel_menu_halted = document reel_menu_open"
    and "skeleton (elems reel_menu_halted i) = skeleton (elems (enhanceVideo 3 reel_active) i)"
    and "classList (elems reel_menu_halted 3) = []"
    and "classList (elems reel_menu_halted 17) = [''insta-control-rotate-btn'']"
    and "classList (elems reel_menu_halted 18) = [''insta-control-rotate-menu'', ''active'']"
    and "customControls reel_menu_halted 3 = Some 4"
  by (simp_all add: reel_menu_halted_def reel_menu_open_facts(2-) classList_ops_classes)

lemma reel_menu_halted_videos: "querySelectorAll_video reel_menu_halted = [3]"
proof -
  have t: "tagName (elems reel_menu_halted i) = tagName (elems (enhanceVideo 3 reel_active) i)"
    for i
    using skeleton_eqD [OF reel_menu_halted_facts(2) [of i]] by simp
  show ?thesis
    by (simp add: querySelectorAll_video_def reel_menu_halted_facts(1) reel_menu_open_facts(1)
          t reel_enhanced_tags)
qed

text \<open>
  The teardown looks for the menu inside the container; the open menu hangs under
  \<^verbatim>\<open>body\<close>, so it stays in the document, still carrying its classes.
\<close>

lemma open_menu_survives_teardown:
  "document reel_menu_left =
     Node 0 [Node 1 [Node 2 [Node 3 []], Node 18 [Node 19 [], Node 20 [], Node 21 []]]]
   \<and> classList (elems reel_menu_left 18) = [''insta-control-rotate-menu'', ''active'']
   \<and> \<not> isEnabled reel_menu_left"
proof -
  have r: "nid (document reel_menu_open) = 0" by (simp add: reel_menu_open_facts(1))
  have eq: "reel_menu_left = removeControls_of 3 reel_menu_halted"
    by (simp add: reel_menu_left_def onStorageChanged_def Let_def reel_menu_open_facts(7) r
          reel_menu_halted_def [symmetric] removeAllControls_def reel_menu_halted_videos)
  have "parentElement reel_menu_halted 4 = Some 2"
    by (simp add: parentElement_def parentChain_def reel_menu_halted_facts(1)
          reel_menu_open_facts(1))
  then have p: "parentElement reel_menu_halted 4 \<noteq> None" by simp
  have d: "document (removeBar 3 reel_menu_halted) =
             Node 0 [Node 1 [Node 2 [Node 3 [], Node 17 []],
                             Node 18 [Node 19 [], Node 20 [], Node 21 []]]]"
    by (simp add: removeBar_document [OF reel_menu_halted_facts(6) p]
          reel_menu_halted_facts(1) reel_menu_open_facts(1))
  have s: "skeleton (elems reel_menu_halted 2) = skeleton (elems reel_page 2)"
    by (simp add: reel_menu_halted_facts(2) reel_enhanced_facts(7))
  have z: "clientWidth (elems reel_menu_halted 2) = 400"
    "clientHeight (elems reel_menu_halted 2) = 600"
    using skeleton_eqD [OF s] by (simp_all add: reel_page_def new_element_def)
  have c: "findVideoContainer (removeBar 3 reel_menu_halted) 3 = Some 2"
    by (simp add: findVideoContainer_def parentChain_def d z)
  have b: "querySelector (removeBar 3 reel_menu_halted) 2
             (sel_class ''insta-control-rotate-btn'') = Some 17"
    by (simp add: querySelector_def querySelector_in_def d sel_class_def
          reel_menu_halted_facts(3,4))
  have n: "querySelector (removeChild 17 (removeBar 3 reel_menu_halted)) 2
             (sel_class ''insta-control-rotate-menu'') = None"
    by (simp add: querySelector_def querySelector_in_def d sel_class_def
          reel_menu_halted_facts(3))
  have doc: "document reel_menu_left =
     Node 0 [Node 1 [Node 2 [Node 3 []], Node 18 [Node 19 [], Node 20 [], Node 21 []]]]"
    by (simp add: eq removeControls_of_def removeRotationUI_document_no_menu [OF c b n] d)
  have cl: "classList (elems reel_menu_left 18) = classList (elems reel_menu_halted 18)"
    by (simp add: eq removeControls_of_def resetVideo_def removeRotationUI_def c b n Let_def
          classList_ops_classes elems_lookup)
  have en: "\<not> isEnabled reel_menu_left"
    by (simp add: eq reel_menu_halted_def)
  show ?thesis using doc cl en by (simp add: reel_menu_halted_facts(5))
qed

end
